theory Spec2Isabelle
  imports Complex_Main "HOL-Library.Sublist" "HOL-Library.Multiset"
begin

section \<open>JavaScript values and built-ins used by the dashboards\<close>

text \<open>
  A JavaScript number is modelled as \<open>real option\<close>: \<open>Some x\<close> is the finite number \<open>x\<close>,
  \<open>None\<close> is \<open>NaN\<close>, which is also what an absent (\<open>undefined\<close>) field becomes in arithmetic.
  Arithmetic on finite numbers is the arithmetic of the reals; the rounding error of IEEE
  doubles is not modelled, except where an operation of the platform is taken as a parameter.
\<close>

type_synonym number = "real option"

text \<open>The relational operators \<open>>=\<close>, \<open><=\<close>, \<open>>\<close>, \<open><\<close>: false as soon as one side is \<open>NaN\<close>.\<close>

fun num_ge :: "number \<Rightarrow> number \<Rightarrow> bool" where
  "num_ge (Some x) (Some y) = (x \<ge> y)"
| "num_ge _ _ = False"

fun num_le :: "number \<Rightarrow> number \<Rightarrow> bool" where
  "num_le (Some x) (Some y) = (x \<le> y)"
| "num_le _ _ = False"

fun num_gt :: "number \<Rightarrow> number \<Rightarrow> bool" where
  "num_gt (Some x) (Some y) = (x > y)"
| "num_gt _ _ = False"

fun num_lt :: "number \<Rightarrow> number \<Rightarrow> bool" where
  "num_lt (Some x) (Some y) = (x < y)"
| "num_lt _ _ = False"

fun num_add :: "number \<Rightarrow> number \<Rightarrow> number" where
  "num_add (Some x) (Some y) = Some (x + y)"
| "num_add _ _ = None"

fun num_sub :: "number \<Rightarrow> number \<Rightarrow> number" where
  "num_sub (Some x) (Some y) = Some (x - y)"
| "num_sub _ _ = None"

fun num_mul :: "number \<Rightarrow> number \<Rightarrow> number" where
  "num_mul (Some x) (Some y) = Some (x * y)"
| "num_mul _ _ = None"

text \<open>\<open>Math.round\<close>: the nearest integer, a tie going towards \<open>+\<infinity>\<close>.\<close>

definition Math_round :: "real \<Rightarrow> real" where
  "Math_round x = of_int \<lfloor>x + 1 / 2\<rfloor>"

definition num_round :: "number \<Rightarrow> number" where
  "num_round a = map_option Math_round a"

text \<open>
  \<open>a || d\<close> on a number: \<open>d\<close> when \<open>a\<close> is falsy (\<open>0\<close>, \<open>NaN\<close>, \<open>undefined\<close>), else \<open>a\<close>.
\<close>

definition num_or :: "number \<Rightarrow> number \<Rightarrow> number" where
  "num_or a d = (case a of None \<Rightarrow> d | Some x \<Rightarrow> if x = 0 then d else Some x)"

text \<open>\<open>a || d\<close> on a string that may be absent: the empty string is falsy too.\<close>

definition str_or :: "string option \<Rightarrow> string \<Rightarrow> string" where
  "str_or a d = (case a of None \<Rightarrow> d | Some s \<Rightarrow> if s = [] then d else s)"

text \<open>
  \<open>String.prototype.toLowerCase\<close> on the ASCII letters; strings are lists of 8-bit
  characters, every other character is left as it is.
\<close>

definition toLowerCase_char :: "char \<Rightarrow> char" where
  "toLowerCase_char c =
     (case map_of (zip ''ABCDEFGHIJKLMNOPQRSTUVWXYZ'' ''abcdefghijklmnopqrstuvwxyz'') c of
        Some l \<Rightarrow> l
      | None \<Rightarrow> c)"

definition toLowerCase :: "string \<Rightarrow> string" where
  "toLowerCase s = map toLowerCase_char s"

text \<open>\<open>s.includes(k)\<close>: \<open>k\<close> occurs in \<open>s\<close> as a contiguous run of characters.\<close>

definition includes_str :: "string \<Rightarrow> string \<Rightarrow> bool" where
  "includes_str s k = sublist k s"

subsection \<open>Number formatting\<close>

text \<open>The decimal digits of a natural number, most significant first.\<close>

definition digit_char :: "nat \<Rightarrow> char" where
  "digit_char d = ''0123456789'' ! d"

function digits :: "nat \<Rightarrow> string" where
  "digits n = (if n < 10 then [digit_char n] else digits (n div 10) @ [digit_char (n mod 10)])"
  by pat_completeness auto
termination
  by (relation "measure id") auto

declare digits.simps [simp del]

text \<open>
  \<open>x.toFixed(f)\<close> as ECMAScript defines it for \<open>\<bar>x\<bar> < 10\<^sup>2\<^sup>1\<close>: the integer \<open>n\<close> nearest to
  \<open>\<bar>x\<bar> \<sqdot> 10\<^sup>f\<close> (the larger one on a tie), its digits padded with zeros to \<open>f + 1\<close> places,
  a point before the last \<open>f\<close> of them, and a minus sign when \<open>x < 0\<close>. (At \<open>10\<^sup>2\<^sup>1\<close> and
  beyond JavaScript switches to exponent notation, which is outside this model.)
\<close>

definition toFixed :: "real \<Rightarrow> nat \<Rightarrow> string" where
  "toFixed x f =
     (let n = nat \<lfloor>\<bar>x\<bar> * 10 ^ f + 1 / 2\<rfloor>;
          m = digits n;
          m = (if f \<noteq> 0
               then (let k = length m;
                         m = (if k \<le> f then replicate (f + 1 - k) (CHR ''0'') @ m else m);
                         k = length m
                     in take (k - f) m @ ''.'' @ drop (k - f) m)
               else m)
      in (if x < 0 then ''-'' else []) @ m)"

section \<open>script.js: the dashboards (classes WeatherOracle and EnvironmentalDashboard)\<close>

subsection \<open>getVariableCategory\<close>

text \<open>
  \<open>getVariableCategory(name)\<close>, script.js lines 321-328 (WeatherOracle) and lines 1012-1019
  (EnvironmentalDashboard); the two bodies are the same text.
\<close>

definition getVariableCategory :: "string \<Rightarrow> string" where
  "getVariableCategory name =
     (let lowerName = toLowerCase name in
      if includes_str lowerName ''temperature'' then ''temperature''
      else if includes_str lowerName ''moisture'' \<or> includes_str lowerName ''humidity''
        then ''moisture''
      else if includes_str lowerName ''radiation'' \<or> includes_str lowerName ''flux''
        then ''radiation''
      else if includes_str lowerName ''precipitation'' \<or> includes_str lowerName ''rain''
              \<or> includes_str lowerName ''snow''
        then ''precipitation''
      else ''other'')"

text \<open>
  The specification's wording, for comparison with the code: a keyword matches a name
  case-insensitively when some contiguous part of the name is the keyword up to the case of
  its letters; the categories are tried in the fixed priority order.
\<close>

definition spec_keyword_match :: "string \<Rightarrow> string \<Rightarrow> bool" where
  "spec_keyword_match keyword name =
     (\<exists>before part after. name = before @ part @ after \<and> toLowerCase part = keyword)"

definition spec_category :: "string \<Rightarrow> string" where
  "spec_category name =
     (if spec_keyword_match ''temperature'' name then ''temperature''
      else if spec_keyword_match ''moisture'' name \<or> spec_keyword_match ''humidity'' name
        then ''moisture''
      else if spec_keyword_match ''radiation'' name \<or> spec_keyword_match ''flux'' name
        then ''radiation''
      else if spec_keyword_match ''precipitation'' name \<or> spec_keyword_match ''rain'' name
              \<or> spec_keyword_match ''snow'' name
        then ''precipitation''
      else ''other'')"

subsection \<open>What the backend returns\<close>

text \<open>
  A value of a summary field as it arrives in the JSON answer: a number, a string,
  \<open>null\<close>, or \<open>undefined\<close> for a field the object does not have. An object is a map from its
  keys to values.
\<close>

datatype jsvalue = Undefined | Null | Num real | Str string

type_synonym js_object = "string \<rightharpoonup> jsvalue"

definition get_field :: "js_object \<Rightarrow> string \<Rightarrow> jsvalue" where
  "get_field obj k = (case obj k of None \<Rightarrow> Undefined | Some v \<Rightarrow> v)"

text \<open>The \<open>confidence\<close> field of a variable: absent, \<open>null\<close>, or a number.\<close>

datatype score = Absent | NullScore | Score real

record variable =
  v_name :: string
  v_value :: real
  v_unit :: "string option"
  v_confidence :: score

record confidence_entry =
  ce_variable :: string
  ce_confidence :: real

record prediction =
  data_summary :: js_object
  data_variables :: "variable list"
  data_confidence :: "confidence_entry list option"

subsection \<open>displayWeatherSummary\<close>

text \<open>
  \<open>displayWeatherSummary(summary)\<close>, script.js lines 197-222 and 888-913 (the same text in
  both classes): the children appended to \<open>#weatherSummary\<close>, one per entry of
  \<open>weatherItems\<close>, each with its heading, the value put into the page and its unit. The
  headings and units are the UTF-8 bytes of the source's literals.
\<close>

record weather_item =
  item_key :: string
  item_value :: jsvalue
  item_unit :: string

definition weatherItems :: "js_object \<Rightarrow> weather_item list" where
  "weatherItems summary =
     [\<lparr>item_key = [CHR 0xF0, CHR 0x9F, CHR 0x8C, CHR 0xA1, CHR 0xEF, CHR 0xB8, CHR 0x8F]
          @ '' Average Temperature ('' @ [CHR 0xC2, CHR 0xB0] @ ''C)'',
       item_value = get_field summary ''temperature'',
       item_unit = [CHR 0xC2, CHR 0xB0] @ ''C''\<rparr>,
      \<lparr>item_key = [CHR 0xF0, CHR 0x9F, CHR 0xA5, CHR 0xB5]
          @ '' Feels Like Temperature ('' @ [CHR 0xC2, CHR 0xB0] @ ''C)'',
       item_value = get_field summary ''feels_like'',
       item_unit = [CHR 0xC2, CHR 0xB0] @ ''C''\<rparr>,
      \<lparr>item_key = [CHR 0xE2, CHR 0x98, CHR 0x94] @ '' Probability of Rain (%)'',
       item_value = get_field summary ''rain_probability'', item_unit = ''%''\<rparr>,
      \<lparr>item_key = [CHR 0xE2, CHR 0x9D, CHR 0x84, CHR 0xEF, CHR 0xB8, CHR 0x8F]
          @ '' Probability of Snow (%)'',
       item_value = get_field summary ''snow_probability'', item_unit = ''%''\<rparr>,
      \<lparr>item_key = [CHR 0xE2, CHR 0x9A, CHR 0xA1] @ '' Probability of Storm (%)'',
       item_value = get_field summary ''storm_probability'', item_unit = ''%''\<rparr>,
      \<lparr>item_key = [CHR 0xF0, CHR 0x9F, CHR 0x8C, CHR 0xA4, CHR 0xEF, CHR 0xB8, CHR 0x8F]
          @ '' Sunshine Index (%)'',
       item_value = get_field summary ''sunshine_index'', item_unit = ''%''\<rparr>,
      \<lparr>item_key = [CHR 0xF0, CHR 0x9F, CHR 0x92, CHR 0xA7] @ '' Humidity Index (%)'',
       item_value = get_field summary ''humidity_index'', item_unit = ''%''\<rparr>,
      \<lparr>item_key = [CHR 0xF0, CHR 0x9F, CHR 0x92, CHR 0xA8] @ '' Wind Speed (m/s)'',
       item_value = get_field summary ''wind_speed'', item_unit = ''m/s''\<rparr>]"

text \<open>
  The container is emptied and one child is appended for each item, in order; a child is
  modelled by the item it shows.
\<close>

definition displayWeatherSummary :: "js_object \<Rightarrow> weather_item list" where
  "displayWeatherSummary summary =
     foldl (\<lambda>container item. container @ [item]) [] (weatherItems summary)"

subsection \<open>displayVariablesTable\<close>

text \<open>
  \<open>displayVariablesTable(variables)\<close>, script.js lines 224-258 and 915-949 (the same text in
  both classes): the rows appended to \<open>#variablesTable\<close>, the header first. A row carries its
  \<open>data-category\<close> (the header has none) and the texts of its four cells. The animation delay
  of a row is styling and is left out.
\<close>

record table_row =
  data_category :: "string option"
  name_cell :: string
  value_cell :: string
  unit_cell :: string
  confidence_cell :: string

definition headerRow :: table_row where
  "headerRow =
     \<lparr>data_category = None, name_cell = ''Variable'', value_cell = ''Predicted Value'',
      unit_cell = ''Unit'', confidence_cell = ''Confidence''\<rparr>"

text \<open>
  The text of the confidence cell,
  \<open>variable.confidence ? `${(variable.confidence * 100).toFixed(1)}%` : 'N/A'\<close>:
  \<open>undefined\<close>, \<open>null\<close> and \<open>0\<close> are falsy.
\<close>

definition confidence_text :: "score \<Rightarrow> string" where
  "confidence_text c =
     (case c of
        Score x \<Rightarrow> if x \<noteq> 0 then toFixed (x * 100) 1 @ ''%'' else ''N/A''
      | _ \<Rightarrow> ''N/A'')"

definition variable_row :: "variable \<Rightarrow> table_row" where
  "variable_row v =
     \<lparr>data_category = Some (getVariableCategory (v_name v)),
      name_cell = v_name v,
      value_cell = toFixed (v_value v) 3,
      unit_cell = str_or (v_unit v) [],
      confidence_cell = confidence_text (v_confidence v)\<rparr>"

definition displayVariablesTable :: "variable list \<Rightarrow> table_row list" where
  "displayVariablesTable vs = headerRow # map variable_row vs"

subsection \<open>displayConfidenceIntervals\<close>

text \<open>
  \<open>Array.prototype.sort(compare)\<close>. For a comparator that orders the elements consistently,
  as the difference of two numbers does, the language fixes the result: the elements in
  ascending order of the comparator, equal ones in their original order (the sort is
  stable). Insertion from the right end computes exactly that arrangement.
\<close>

fun insert_by :: "('a \<Rightarrow> 'a \<Rightarrow> real) \<Rightarrow> 'a \<Rightarrow> 'a list \<Rightarrow> 'a list" where
  "insert_by compare x [] = [x]"
| "insert_by compare x (y # ys) =
     (if compare x y \<le> 0 then x # y # ys else y # insert_by compare x ys)"

definition Array_sort :: "('a \<Rightarrow> 'a \<Rightarrow> real) \<Rightarrow> 'a list \<Rightarrow> 'a list" where
  "Array_sort compare xs = foldr (insert_by compare) xs []"

text \<open>\<open>Array.prototype.slice(0, n)\<close>.\<close>

definition slice0 :: "nat \<Rightarrow> 'a list \<Rightarrow> 'a list" where
  "slice0 n xs = take n xs"

text \<open>
  \<open>displayConfidenceIntervals(confidence)\<close>, script.js lines 260-286 and 951-977 (the same
  text in both classes): the children of \<open>#confidenceSection\<close> afterwards, either the one
  paragraph saying that nothing is available, or one item per entry shown, with its title,
  the width of its bar in percent and its label. \<open>None\<close> is a \<open>confidence\<close> that is \<open>null\<close> or
  absent.
\<close>

datatype section_child =
    Paragraph string
  | ConfidenceItem string real string

definition topConfidence :: "confidence_entry list \<Rightarrow> confidence_entry list" where
  "topConfidence confidence =
     slice0 5 (Array_sort (\<lambda>a b. ce_confidence b - ce_confidence a) confidence)"

definition confidenceItem :: "confidence_entry \<Rightarrow> section_child" where
  "confidenceItem item =
     ConfidenceItem (ce_variable item) (ce_confidence item * 100)
       (''Confidence: '' @ toFixed (ce_confidence item * 100) 1 @ ''%'')"

definition displayConfidenceIntervals :: "confidence_entry list option \<Rightarrow> section_child list" where
  "displayConfidenceIntervals confidence =
     (case confidence of
        None \<Rightarrow> [Paragraph ''Confidence intervals not available for this prediction.'']
      | Some entries \<Rightarrow>
          if length entries = 0
          then [Paragraph ''Confidence intervals not available for this prediction.'']
          else map confidenceItem (topConfidence entries))"

subsection \<open>predictEnvironment of WeatherOracle\<close>

text \<open>A JSON value as handed to \<open>JSON.stringify\<close>, and a request sent with \<open>fetch\<close>.\<close>

datatype json = JString string | JNumber real | JObject "(string \<times> json) list"

record request =
  url :: string
  body :: json

record location =
  loc_name :: string
  latitude :: real
  longitude :: real

text \<open>
  The fields of the object and the parts of the page that \<open>predictEnvironment\<close> reads and
  writes: \<open>isLoading\<close>, the value of \<open>#dateInput\<close>, \<open>selectedLocation\<close> (\<open>None\<close> is \<open>null\<close>), the
  text of the error state (\<open>None\<close> when hidden), whether the loading state and the results
  section are visible, \<open>currentData\<close>, the children of the three result containers, and the
  requests sent to the prediction endpoint so far, oldest first.
\<close>

record weather_oracle =
  isLoading :: bool
  dateInput :: string
  selectedLocation :: "location option"
  errorState :: "string option"
  loadingShown :: bool
  resultsShown :: bool
  currentData :: "prediction option"
  weatherSummary :: "weather_item list"
  variablesTable :: "table_row list"
  confidenceSection :: "section_child list"
  sent :: "request list"

text \<open>
  What the \<open>fetch\<close> of the prediction can come to: it is rejected, the status is not \<open>ok\<close>, the
  body cannot be read as JSON, or the body is a prediction.
\<close>

datatype api_response = Rejected | Status nat | Unreadable | Answer prediction

definition showError :: "string \<Rightarrow> weather_oracle \<Rightarrow> weather_oracle" where
  "showError message s = s\<lparr>errorState := Some message\<rparr>"

definition hideError :: "weather_oracle \<Rightarrow> weather_oracle" where
  "hideError s = s\<lparr>errorState := None\<rparr>"

definition displayResults :: "prediction \<Rightarrow> weather_oracle \<Rightarrow> weather_oracle" where
  "displayResults dat s =
     s\<lparr>weatherSummary := displayWeatherSummary (data_summary dat),
       variablesTable := displayVariablesTable (data_variables dat),
       confidenceSection := displayConfidenceIntervals (data_confidence dat)\<rparr>"

definition requestData :: "string \<Rightarrow> location \<Rightarrow> json" where
  "requestData date loc =
     JObject [(''date'', JString date),
              (''location'', JObject [(''name'', JString (loc_name loc)),
                                      (''latitude'', JNumber (latitude loc)),
                                      (''longitude'', JNumber (longitude loc))])]"

text \<open>
  \<open>predictEnvironment()\<close> of WeatherOracle, script.js lines 119-189, as one run from the
  click to the end of \<open>finally\<close>; \<open>isLoading\<close> is true at the start when an earlier run is
  still waiting for its answer. The button's text, the one-second pause and the scrolling are
  left out.
\<close>

definition predictEnvironment ::
  "(request \<Rightarrow> api_response) \<Rightarrow> weather_oracle \<Rightarrow> weather_oracle" where
  "predictEnvironment backend s =
     (if isLoading s then s
      else
        (let date = dateInput s in
         if date = [] then showError ''Please select a date'' s
         else case selectedLocation s of
           None \<Rightarrow> showError ''Please select a location using one of the methods above'' s
         | Some loc \<Rightarrow>
            (let s1 = (hideError (s\<lparr>isLoading := True, loadingShown := True\<rparr>))
                        \<lparr>resultsShown := False\<rparr>;
                 req = \<lparr>url = ''http://localhost:5000/api/predict'',
                        body = requestData date loc\<rparr>;
                 s2 = s1\<lparr>sent := sent s1 @ [req]\<rparr>
             in case backend req of
                  Answer dat \<Rightarrow>
                    (displayResults dat (s2\<lparr>currentData := Some dat\<rparr>))
                      \<lparr>loadingShown := False, resultsShown := True, isLoading := False\<rparr>
                | _ \<Rightarrow>
                    (showError
                       ''Failed to get predictions. Please make sure the API server is running.''
                       (s2\<lparr>loadingShown := False\<rparr>))\<lparr>isLoading := False\<rparr>)))"

text \<open>
  \<open>predictEnvironment()\<close> of EnvironmentalDashboard, script.js lines 845-880, on the same
  page; this class has neither \<open>isLoading\<close> nor a location, and posts the date alone.
\<close>

definition EnvironmentalDashboard_predictEnvironment ::
  "(request \<Rightarrow> api_response) \<Rightarrow> weather_oracle \<Rightarrow> weather_oracle" where
  "EnvironmentalDashboard_predictEnvironment backend s =
     (let date = dateInput s in
      if date = [] then showError ''Please select a date'' s
      else
        (let s1 = (hideError (s\<lparr>loadingShown := True\<rparr>))\<lparr>resultsShown := False\<rparr>;
             req = \<lparr>url = ''http://localhost:5000/api/predict'',
                    body = JObject [(''date'', JString date)]\<rparr>;
             s2 = s1\<lparr>sent := sent s1 @ [req]\<rparr>
         in case backend req of
              Answer dat \<Rightarrow>
                (displayResults dat (s2\<lparr>currentData := Some dat\<rparr>))
                  \<lparr>loadingShown := False, resultsShown := True\<rparr>
            | _ \<Rightarrow>
                showError
                  ''Failed to get predictions. Please make sure the API server is running.''
                  (s2\<lparr>loadingShown := False\<rparr>)))"

subsection \<open>Vocabulary of the statements about the dashboards\<close>

text \<open>
  The order of the confidence display: an entry comes before one of lower or equal
  confidence.
\<close>

definition descending :: "confidence_entry \<Rightarrow> confidence_entry \<Rightarrow> bool" where
  "descending a b = (ce_confidence a \<ge> ce_confidence b)"

text \<open>The eight fields of the weather summary, in the specification's order.\<close>

definition summary_fields :: "string list" where
  "summary_fields =
     [''temperature'', ''feels_like'', ''rain_probability'', ''snow_probability'',
      ''storm_probability'', ''sunshine_index'', ''humidity_index'', ''wind_speed'']"

text \<open>A member of a JSON object, \<open>None\<close> when the object has no such key.\<close>

fun json_field :: "json \<Rightarrow> string \<Rightarrow> json option" where
  "json_field (JObject members) k = map_of members k"
| "json_field _ k = None"

subsection \<open>Concrete answers and a concrete dashboard\<close>

definition example_confidence :: "confidence_entry list" where
  "example_confidence =
     [\<lparr>ce_variable = ''air_temperature'', ce_confidence = 0.5\<rparr>,
      \<lparr>ce_variable = ''soil_moisture'', ce_confidence = 0.9\<rparr>,
      \<lparr>ce_variable = ''net_radiation'', ce_confidence = 0.7\<rparr>,
      \<lparr>ce_variable = ''rainfall'', ce_confidence = 0.95\<rparr>,
      \<lparr>ce_variable = ''wind_speed'', ce_confidence = 0.6\<rparr>,
      \<lparr>ce_variable = ''snow_depth'', ce_confidence = 0.8\<rparr>]"

definition example_summary :: js_object where
  "example_summary =
     map_of [(''temperature'', Num 21.4), (''feels_like'', Num 19.8),
             (''rain_probability'', Num 30), (''snow_probability'', Num 0),
             (''storm_probability'', Num 5), (''sunshine_index'', Num 65),
             (''humidity_index'', Num 50), (''wind_speed'', Num 3.2)]"

definition example_summary_extra :: js_object where
  "example_summary_extra =
     map_of [(''pressure'', Num 1013), (''temperature'', Num 21.4), (''feels_like'', Num 19.8),
             (''rain_probability'', Num 30), (''snow_probability'', Num 0),
             (''storm_probability'', Num 5), (''sunshine_index'', Num 65),
             (''humidity_index'', Num 50), (''wind_speed'', Num 3.2),
             (''condition'', Str ''Sunny'')]"

definition example_variable :: "score \<Rightarrow> variable" where
  "example_variable c =
     \<lparr>v_name = ''Air_Temperature_2m'', v_value = 21.4, v_unit = Some ''K'', v_confidence = c\<rparr>"

text \<open>The dashboard with New York City selected, a given date typed in, and nothing sent.\<close>

definition example_oracle :: "string \<Rightarrow> weather_oracle" where
  "example_oracle date =
     \<lparr>isLoading = False, dateInput = date,
      selectedLocation =
        Some \<lparr>loc_name = ''New York City'', latitude = 40.7128, longitude = - 74.006\<rparr>,
      errorState = None, loadingShown = False, resultsShown = False, currentData = None,
      weatherSummary = [], variablesTable = [], confidenceSection = [], sent = []\<rparr>"

section \<open>The map application (class WeatherApp)\<close>

text \<open>
  The line numbers in this section are those of the source file of class \<open>WeatherApp\<close>
  (\<open>src/unnamed/part_001\<close>).
\<close>

subsection \<open>State of the page\<close>

record coords =
  lat :: real
  lng :: real

text \<open>
  What \<open>convertModelDataToWeather\<close> reads from the model's answer \<open>data.data\<close>. The answer
  is a nested object; the field \<open>temperature_air_temperature\<close> is
  \<open>modelData.temperature.air_temperature\<close> and so on. A numeric leaf is a number or absent, a
  text leaf a string or absent; the seven nested objects themselves are present.
\<close>

record model_data =
  temperature_air_temperature :: number
  temperature_feels_like :: number
  humidity_percentage :: number
  weather_conditions_primary :: "string option"
  precipitation_rain_rate :: number
  precipitation_rain_probability :: number
  wind_speed :: number
  pressure_value :: number
  weather_conditions_visibility :: "string option"
  weather_conditions_storm_probability :: number
  precipitation_snow_probability :: number
  comfort_index_comfort_level :: "string option"

text \<open>The object that \<open>convertModelDataToWeather\<close> returns.\<close>

record weather =
  temp :: number
  feelslike :: number
  humidity :: number
  conditions :: string
  precip :: number
  precipprob :: number
  windSpeed :: number
  windGusts :: number
  pressure :: number
  visibility :: "string option"
  stormProb :: number
  snowProb :: number
  comfortLevel :: "string option"

text \<open>
  What \<open>updateWeatherDisplay\<close> writes into the page, one field for each element it sets; a
  number stands for its decimal text, and the fixed suffixes (\<open>m/s\<close>, \<open>%\<close>, \<open>hPa\<close>, the degree
  sign) are left out. The clock texts \<open>#currentTime\<close> and \<open>#tonightDate\<close> come from the
  browser's clock and are not modelled.
\<close>

record display =
  shown_currentTemp :: number
  shown_currentFeelsLike :: number
  shown_currentCondition :: string
  shown_shadeTemp :: number
  shown_windSpeed :: number
  shown_windGusts :: number
  shown_humidity :: number
  shown_pressure :: number
  shown_visibility :: string
  shown_comfortLevel :: string
  shown_tonightLow :: number
  shown_tomorrowHigh :: number
  shown_probSunny :: number
  shown_probRainy :: number
  shown_probSnowy :: number
  shown_probStorm :: number

text \<open>
  The fields of the object and the parts of the page that its handlers read and write:
  \<open>currentCoords\<close> (\<open>None\<close> is \<open>null\<close>), the marker's position, the map's centre and zoom, the
  values of the inputs \<open>#lat\<close> and \<open>#lng\<close>, the texts of \<open>#mapLat\<close> and \<open>#mapLng\<close>, the
  text of \<open>#coordError\<close> and of \<open>#apiError\<close> (\<open>None\<close> when hidden), the alerts shown, the
  weather card (\<open>None\<close> until a prediction is displayed), the \<open>data-theme\<close> of the body, and
  the requests sent to the prediction endpoint so far, oldest first. The timers that hide an
  error again after five seconds are not modelled.
\<close>

record app =
  currentCoords :: "coords option"
  marker :: "(real \<times> real) option"
  mapCenter :: "real \<times> real"
  mapZoom :: nat
  latInput :: string
  lngInput :: string
  mapLat :: string
  mapLng :: string
  coordError :: "string option"
  alerts :: "string list"
  apiError :: "string option"
  shown :: "display option"
  theme :: "string option"
  requests :: "request list"

subsection \<open>Coordinates\<close>

definition isNaN :: "number \<Rightarrow> bool" where
  "isNaN a = (a = None)"

text \<open>\<open>isValidCoordinate(lat, lng)\<close>, lines 126-128.\<close>

definition isValidCoordinate :: "number \<Rightarrow> number \<Rightarrow> bool" where
  "isValidCoordinate la lo =
     (num_ge la (Some (- 90)) \<and> num_le la (Some 90) \<and>
      num_ge lo (Some (- 180)) \<and> num_le lo (Some 180))"

text \<open>\<open>addMarker(latlng)\<close>, lines 82-98: the old marker is removed, a new one is placed.\<close>

definition addMarker :: "real \<times> real \<Rightarrow> app \<Rightarrow> app" where
  "addMarker latlng s = s\<lparr>marker := Some latlng\<rparr>"

definition setView :: "real \<times> real \<Rightarrow> nat \<Rightarrow> app \<Rightarrow> app" where
  "setView latlng zoom s = s\<lparr>mapCenter := latlng, mapZoom := zoom\<rparr>"

text \<open>\<open>updateCoordinates(lat, lng)\<close>, lines 100-113.\<close>

definition updateCoordinates :: "real \<Rightarrow> real \<Rightarrow> app \<Rightarrow> app" where
  "updateCoordinates la lo s =
     s\<lparr>currentCoords := Some \<lparr>lat = la, lng = lo\<rparr>,
       latInput := toFixed la 6, lngInput := toFixed lo 6,
       mapLat := toFixed la 6, mapLng := toFixed lo 6,
       coordError := None\<rparr>"

definition showCoordinateError :: "string \<Rightarrow> app \<Rightarrow> app" where
  "showCoordinateError message s = s\<lparr>coordError := Some message\<rparr>"

text \<open>
  \<open>updateMapFromInputs()\<close>, lines 115-124. \<open>parseFloat\<close> is the platform's; it is a
  parameter here.
\<close>

definition updateMapFromInputs :: "(string \<Rightarrow> number) \<Rightarrow> app \<Rightarrow> app" where
  "updateMapFromInputs parseFloat s =
     (let la = parseFloat (latInput s); lo = parseFloat (lngInput s) in
      if \<not> isNaN la \<and> \<not> isNaN lo \<and> isValidCoordinate la lo
      then updateCoordinates (the la) (the lo)
             (addMarker (the la, the lo) (setView (the la, the lo) (mapZoom s) s))
      else s)"

text \<open>\<open>convertCoordinateFormat()\<close>, lines 177-201.\<close>

definition convertCoordinateFormat :: "(string \<Rightarrow> number) \<Rightarrow> app \<Rightarrow> app" where
  "convertCoordinateFormat parseFloat s =
     (let la = latInput s; lo = lngInput s in
      if la = [] \<or> lo = []
      then showCoordinateError ''Please enter both latitude and longitude values.'' s
      else
        (let latNum = parseFloat la; lngNum = parseFloat lo in
         if isValidCoordinate latNum lngNum
         then s\<lparr>alerts := alerts s @
           [''Coordinate format conversion feature - to be implemented with DMS format support'']\<rparr>
         else showCoordinateError ''Invalid coordinate values.'' s))"

text \<open>
  \<open>geocodeLocation(query)\<close>, lines 239-263. The answer of the geocoding service is a
  parameter: the request failed, no result, or the first result's coordinates.
\<close>

datatype geocoded = GeocodingFailed | NoResults | FirstResult real real

definition geocodeLocation :: "(string \<Rightarrow> geocoded) \<Rightarrow> string \<Rightarrow> app \<Rightarrow> app" where
  "geocodeLocation geocoder query s =
     (case geocoder query of
        FirstResult la lo \<Rightarrow> updateCoordinates la lo (addMarker (la, lo) (setView (la, lo) 12 s))
      | NoResults \<Rightarrow>
          showCoordinateError ''Location not found. Please try a different search term.'' s
      | GeocodingFailed \<Rightarrow>
          showCoordinateError
            ''Failed to search for location. Please check your internet connection.'' s)"

text \<open>
  \<open>handleSearch()\<close>, lines 218-237, on the trimmed value \<open>query\<close> of \<open>#searchInput\<close>.
  \<open>coordMatch\<close> is the platform's match of the query against the pattern for two numbers:
  the two captured groups, or \<open>None\<close>.
\<close>

definition handleSearch ::
  "(string \<Rightarrow> (string \<times> string) option) \<Rightarrow> (string \<Rightarrow> number) \<Rightarrow> (string \<Rightarrow> geocoded) \<Rightarrow>
   string \<Rightarrow> app \<Rightarrow> app" where
  "handleSearch coordMatch parseFloat geocoder query s =
     (if query = [] then s
      else case coordMatch query of
        Some (g1, g2) \<Rightarrow>
          (let la = parseFloat g1; lo = parseFloat g2 in
           if isValidCoordinate la lo
           then updateCoordinates (the la) (the lo)
                  (addMarker (the la, the lo) (setView (the la, the lo) 12 s))
           else geocodeLocation geocoder query s)
      | None \<Rightarrow> geocodeLocation geocoder query s)"

subsection \<open>From the model's answer to the weather card\<close>

text \<open>\<open>Math.max\<close> and \<open>Math.ceil\<close> on numbers.\<close>

fun num_max :: "number \<Rightarrow> number \<Rightarrow> number" where
  "num_max (Some x) (Some y) = Some (max x y)"
| "num_max _ _ = None"

definition num_ceil :: "number \<Rightarrow> number" where
  "num_ceil a = map_option (\<lambda>x. of_int \<lceil>x\<rceil>) a"

text \<open>\<open>getWeatherCondition(primary)\<close>, lines 409-422.\<close>

definition condition_names :: "(string \<times> string) list" where
  "condition_names =
     [(''Sun'', ''Sunny''), (''Rain'', ''Rainy''), (''Snow'', ''Snowy''),
      (''Freezing'', ''Freezing''), (''Hot'', ''Hot''), (''Warm'', ''Warm''),
      (''Cool'', ''Cool''), (''Mild'', ''Partly Cloudy'')]"

definition getWeatherCondition :: "string option \<Rightarrow> string" where
  "getWeatherCondition primary =
     str_or (case primary of None \<Rightarrow> None | Some p \<Rightarrow> map_of condition_names p)
       ''Partly Cloudy''"

text \<open>\<open>convertModelDataToWeather(modelData)\<close>, lines 390-407.\<close>

definition convertModelDataToWeather :: "model_data \<Rightarrow> weather" where
  "convertModelDataToWeather modelData =
     \<lparr>temp = num_round (temperature_air_temperature modelData),
      feelslike = num_round (temperature_feels_like modelData),
      humidity = num_round (humidity_percentage modelData),
      conditions = getWeatherCondition (weather_conditions_primary modelData),
      precip = precipitation_rain_rate modelData,
      precipprob = precipitation_rain_probability modelData,
      windSpeed = wind_speed modelData,
      windGusts = num_mul (wind_speed modelData) (Some 1.3),
      pressure = pressure_value modelData,
      visibility = weather_conditions_visibility modelData,
      stormProb = weather_conditions_storm_probability modelData,
      snowProb = precipitation_snow_probability modelData,
      comfortLevel = comfort_index_comfort_level modelData\<rparr>"

text \<open>
  \<open>calculateWeatherProbabilitiesFromModel(data)\<close>, lines 467-483, with the sum and the
  difference taken exactly; the version further down takes the platform's two operations as
  parameters.
\<close>

record probabilities =
  sunny :: number
  rainy :: number
  snowy :: number
  storm :: number

definition calculateWeatherProbabilitiesFromModel :: "weather \<Rightarrow> probabilities" where
  "calculateWeatherProbabilitiesFromModel data =
     (let rainProb = num_or (precipprob data) (Some 0);
          snowProb' = num_or (snowProb data) (Some 0);
          stormProb' = num_or (stormProb data) (Some 0);
          otherProbs = num_add (num_add rainProb snowProb') stormProb';
          sunnyProb = num_max (Some 0) (num_sub (Some 100) otherProbs)
      in \<lparr>sunny = num_round sunnyProb, rainy = num_round rainProb,
          snowy = num_round snowProb', storm = num_round stormProb'\<rparr>)"

text \<open>
  \<open>calculateWeatherProbabilitiesFromModel(data)\<close> with the platform's arithmetic as parameters. In the browser the sum
  and the difference of two finite numbers are those of binary64, which round the exact
  result to a representable number; \<open>fl_add\<close> and \<open>fl_sub\<close> stand for these two operations,
  whatever they are (with finite results: overflow is left out), and \<open>num_op\<close> lifts them to
  \<open>NaN\<close>. The comparison with \<open>0\<close>, \<open>Math.max\<close>
  and \<open>Math.round\<close> are exact on finite numbers. First the four probabilities before
  rounding (lines 469-475), then the object returned (lines 477-482). With the exact sum and
  difference of the reals this is \<open>calculateWeatherProbabilitiesFromModel\<close> above.
\<close>

fun num_op :: "(real \<Rightarrow> real \<Rightarrow> real) \<Rightarrow> number \<Rightarrow> number \<Rightarrow> number" where
  "num_op f (Some x) (Some y) = Some (f x y)"
| "num_op f _ _ = None"

definition probabilities_before_rounding ::
  "(real \<Rightarrow> real \<Rightarrow> real) \<Rightarrow> (real \<Rightarrow> real \<Rightarrow> real) \<Rightarrow> weather \<Rightarrow> probabilities" where
  "probabilities_before_rounding fl_add fl_sub data =
     (let rainProb = num_or (precipprob data) (Some 0);
          snowProb' = num_or (snowProb data) (Some 0);
          stormProb' = num_or (stormProb data) (Some 0);
          otherProbs = num_op fl_add (num_op fl_add rainProb snowProb') stormProb';
          sunnyProb = num_max (Some 0) (num_op fl_sub (Some 100) otherProbs)
      in \<lparr>sunny = sunnyProb, rainy = rainProb, snowy = snowProb', storm = stormProb'\<rparr>)"

definition calculateWeatherProbabilitiesFromModel_with ::
  "(real \<Rightarrow> real \<Rightarrow> real) \<Rightarrow> (real \<Rightarrow> real \<Rightarrow> real) \<Rightarrow> weather \<Rightarrow> probabilities" where
  "calculateWeatherProbabilitiesFromModel_with fl_add fl_sub data =
     (let before = probabilities_before_rounding fl_add fl_sub data
      in \<lparr>sunny = num_round (sunny before), rainy = num_round (rainy before),
          snowy = num_round (snowy before), storm = num_round (storm before)\<rparr>)"

text \<open>\<open>updateWeatherDisplay(data)\<close>, lines 425-465.\<close>

definition updateWeatherDisplay :: "weather \<Rightarrow> app \<Rightarrow> app" where
  "updateWeatherDisplay data s =
     (let windSpeed' = num_round (num_or (windSpeed data) (Some 0));
          windGusts' = num_round (num_or (windGusts data) (num_mul windSpeed' (Some 1.3)));
          tonightLow =
            num_round (num_sub (temp data) (if num_gt (temp data) (Some 0) then Some 8 else Some 5));
          tomorrowHigh =
            num_round (num_add (temp data) (if num_gt (temp data) (Some 0) then Some 3 else Some 2));
          probabilities = calculateWeatherProbabilitiesFromModel data
      in s\<lparr>shown := Some
           \<lparr>shown_currentTemp = num_round (temp data),
            shown_currentFeelsLike = num_round (feelslike data),
            shown_currentCondition = str_or (Some (conditions data)) ''Partly sunny'',
            shown_shadeTemp = num_round (num_sub (feelslike data) (Some 2)),
            shown_windSpeed = windSpeed',
            shown_windGusts = windGusts',
            shown_humidity = num_round (num_or (humidity data) (Some 0)),
            shown_pressure = num_round (num_or (pressure data) (Some 0)),
            shown_visibility = str_or (visibility data) ''Good'',
            shown_comfortLevel = str_or (comfortLevel data) ''Pleasant'',
            shown_tonightLow = tonightLow,
            shown_tomorrowHigh = tomorrowHigh,
            shown_probSunny = num_round (sunny probabilities),
            shown_probRainy = num_round (rainy probabilities),
            shown_probSnowy = num_round (snowy probabilities),
            shown_probStorm = num_round (storm probabilities)\<rparr>\<rparr>)"

text \<open>\<open>updateWeatherTheme(data)\<close>, lines 486-495.\<close>

definition updateWeatherTheme :: "weather \<Rightarrow> app \<Rightarrow> app" where
  "updateWeatherTheme data s =
     (let condition = str_or (Some (toLowerCase (conditions data))) ''sunny'' in
      s\<lparr>theme := Some
          (if includes_str condition ''rain'' then ''rainy''
           else if includes_str condition ''snow'' then ''snowy''
           else if includes_str condition ''storm'' \<or> includes_str condition ''thunder''
             then ''storm''
           else ''sunny'')\<rparr>)"

definition showApiError :: "string \<Rightarrow> app \<Rightarrow> app" where
  "showApiError message s = s\<lparr>apiError := Some message\<rparr>"

subsection \<open>The prediction request\<close>

text \<open>
  A \<open>Date\<close> object: its time value in milliseconds since the epoch, or an invalid date
  (what \<open>new Date\<close> gives for an empty or unreadable string).
\<close>

datatype js_date = InvalidDate | TimeValue int

text \<open>
  What the \<open>fetch\<close> of the prediction can come to: the request is rejected (no connection),
  the status is not \<open>ok\<close> (with the \<open>error\<close> text of the body, when it has one), the body of an
  \<open>ok\<close> answer cannot be read as JSON, or it is read: whether \<open>success\<close> is truthy,
  the \<open>data\<close> object when there is one, the \<open>error\<close> text when there is one.
\<close>

datatype response =
    FetchRejected string
  | NotOk nat "string option"
  | OkUnreadable string
  | OkJson bool "model_data option" "string option"

text \<open>
  The surroundings of one run of \<open>predictWeather\<close>: the date \<open>new Date(datePicker.value)\<close>,
  the time value of \<open>new Date()\<close>, the platform's \<open>toISOString\<close> on a time value, and the
  backend's answer to a request.
\<close>

record env =
  selectedDate :: js_date
  today :: int
  toISOString :: "int \<Rightarrow> string"
  respond :: "request \<Rightarrow> response"

text \<open>
  \<open>fetchWeatherData(daysFromNow)\<close>, lines 353-388: the page after the call, and either the
  message of the error thrown (\<open>Inl\<close>) or the weather object returned. \<open>toISOString\<close> of an
  invalid date throws while the arguments of \<open>fetch\<close> are built, so nothing is sent then.
\<close>

definition predict_request :: "env \<Rightarrow> coords \<Rightarrow> int \<Rightarrow> request" where
  "predict_request e c t =
     \<lparr>url = ''http://localhost:5000/predict'',
      body = JObject [(''date'', JString (take 16 (toISOString e t))),
                      (''latitude'', JNumber (lat c)),
                      (''longitude'', JNumber (lng c))]\<rparr>"

definition fetchWeatherData :: "env \<Rightarrow> app \<Rightarrow> app \<times> (string + weather)" where
  "fetchWeatherData e s =
     (case currentCoords s of
        None \<Rightarrow> (s, Inl ''Cannot destructure property of null'')
      | Some c \<Rightarrow>
         (case selectedDate e of
            InvalidDate \<Rightarrow> (s, Inl ''Invalid time value'')
          | TimeValue t \<Rightarrow>
             (let req = predict_request e c t;
                  s' = s\<lparr>requests := requests s @ [req]\<rparr>
              in case respond e req of
                   FetchRejected message \<Rightarrow> (s', Inl message)
                 | NotOk status err \<Rightarrow>
                     (s', Inl (str_or err (''Model API error: '' @ digits status)))
                 | OkUnreadable message \<Rightarrow> (s', Inl message)
                 | OkJson success dat err \<Rightarrow>
                     (case (success, dat) of
                        (True, Some modelData) \<Rightarrow> (s', Inr (convertModelDataToWeather modelData))
                      | _ \<Rightarrow> (s', Inl (str_or err ''No weather data available from model''))))))"

text \<open>
  \<open>predictWeather()\<close>, lines 306-351. The button's loading state is set at the start and
  reset in \<open>finally\<close> on every path, so it is the same before and after and is left out.
\<close>

definition daysFromNow :: "env \<Rightarrow> number" where
  "daysFromNow e =
     num_ceil (case selectedDate e of
                 InvalidDate \<Rightarrow> None
               | TimeValue t \<Rightarrow> Some (real_of_int (t - today e) / (1000 * 60 * 60 * 24)))"

definition failed_message :: "string \<Rightarrow> string" where
  "failed_message message =
     ''Failed to get weather prediction: '' @ message
       @ ''. Please check if the model server is running.''"

definition predictWeather :: "env \<Rightarrow> app \<Rightarrow> app" where
  "predictWeather e s =
     (if currentCoords s = None
      then showApiError
        ''Please select a location first by clicking on the map or entering coordinates.'' s
      else if num_lt (daysFromNow e) (Some 0)
        then showApiError (failed_message ''Cannot predict weather for past dates'') s
      else if num_gt (daysFromNow e) (Some 7)
        then showApiError (failed_message ''Cannot predict weather more than 7 days ahead'') s
      else case fetchWeatherData e s of
             (s', Inl message) \<Rightarrow> showApiError (failed_message message) s'
           | (s', Inr weatherData) \<Rightarrow>
               updateWeatherTheme weatherData (updateWeatherDisplay weatherData s'))"

subsection \<open>Vocabulary of the statements about the map application\<close>

text \<open>A number that may be absent, with the absent one read as \<open>0\<close>.\<close>

definition or_zero :: "number \<Rightarrow> real" where
  "or_zero a = (case a of None \<Rightarrow> 0 | Some x \<Rightarrow> x)"

text \<open>
  The model's answer inside a response, when the response is a success in the sense of
  \<open>fetchWeatherData\<close>: the status is \<open>ok\<close>, \<open>success\<close> is truthy and \<open>data\<close> is there.
\<close>

fun model_answer :: "response \<Rightarrow> model_data option" where
  "model_answer (OkJson True (Some modelData) err) = Some modelData"
| "model_answer _ = None"

text \<open>
  The three numbers of the weather card that are offsets of a rounded model value: the
  temperature in the shade, tonight's low and tomorrow's high.
\<close>

definition shade_of :: "real \<Rightarrow> real" where
  "shade_of f = Math_round f - 2"

definition low_of :: "real \<Rightarrow> real" where
  "low_of t = Math_round t - (if Math_round t > 0 then 8 else 5)"

definition high_of :: "real \<Rightarrow> real" where
  "high_of t = Math_round t + (if Math_round t > 0 then 3 else 2)"

text \<open>
  The numbers the model returned, the numbers the weather card shows, and the
  specification's reading of "a displayed number traces to a value returned by the model, with
  no synthetically derived number": the number is one of the returned values, or one of
  them rounded for display.
\<close>

definition model_numbers :: "model_data \<Rightarrow> number list" where
  "model_numbers m =
     [temperature_air_temperature m, temperature_feels_like m, humidity_percentage m,
      precipitation_rain_rate m, precipitation_rain_probability m, wind_speed m,
      pressure_value m, weather_conditions_storm_probability m,
      precipitation_snow_probability m]"

definition displayed_numbers :: "display \<Rightarrow> number list" where
  "displayed_numbers d =
     [shown_currentTemp d, shown_currentFeelsLike d, shown_shadeTemp d, shown_windSpeed d,
      shown_windGusts d, shown_humidity d, shown_pressure d, shown_tonightLow d,
      shown_tomorrowHigh d, shown_probSunny d, shown_probRainy d, shown_probSnowy d,
      shown_probStorm d]"

definition spec_traces_to_model :: "model_data \<Rightarrow> number \<Rightarrow> bool" where
  "spec_traces_to_model m n =
     (n \<in> set (model_numbers m) \<or> n \<in> set (map num_round (model_numbers m)))"

subsection \<open>A concrete run of the map application\<close>

text \<open>
  A model answer, the page as \<open>init\<close> leaves it (New York selected, nothing displayed,
  nothing sent), and the surroundings of a run on 2 November 2026, 15:30 UTC, for a chosen
  date and a given response of the backend. The time values used below are those of
  1 November (\<open>1793491200000\<close>), 4 November (\<open>1793750400000\<close>) and 12 November 2026
  (\<open>1794441600000\<close>), each at 00:00 UTC.
\<close>

definition example_model :: model_data where
  "example_model =
     \<lparr>temperature_air_temperature = Some 21.4, temperature_feels_like = Some 19.8,
      humidity_percentage = Some 50, weather_conditions_primary = Some ''Sun'',
      precipitation_rain_rate = Some 0, precipitation_rain_probability = Some 0.4,
      wind_speed = Some 10, pressure_value = Some 1013,
      weather_conditions_visibility = Some ''Good'',
      weather_conditions_storm_probability = Some 0,
      precipitation_snow_probability = Some 0,
      comfort_index_comfort_level = Some ''Pleasant''\<rparr>"

definition example_app :: app where
  "example_app =
     \<lparr>currentCoords = Some \<lparr>lat = 40.7128, lng = - 74.006\<rparr>,
      marker = Some (40.7128, - 74.006), mapCenter = (40.7128, - 74.006), mapZoom = 10,
      latInput = ''40.712800'', lngInput = ''-74.006000'',
      mapLat = ''40.712800'', mapLng = ''-74.006000'',
      coordError = None, alerts = [], apiError = None, shown = None, theme = None,
      requests = []\<rparr>"

definition example_env :: "js_date \<Rightarrow> response \<Rightarrow> env" where
  "example_env d r =
     \<lparr>selectedDate = d, today = 1793633400000,
      toISOString =
        (\<lambda>t. if t = 1793491200000 then ''2026-11-01T00:00:00.000Z''
             else if t = 1793750400000 then ''2026-11-04T00:00:00.000Z''
             else ''2026-11-12T00:00:00.000Z''),
      respond = (\<lambda>req. r)\<rparr>"

text \<open>
  A run of the probabilities in binary64. \<open>round_to_multiple q\<close> rounds to the nearest multiple
  of \<open>q\<close>, a tie going to the even multiple; that is what binary64 does to the exact result of
  an operation, with \<open>q = 2\<^sup>e\<^sup>-\<^sup>5\<^sup>2\<close> for a result of magnitude from \<open>2\<^sup>e\<close> up to \<open>2\<^sup>e\<^sup>+\<^sup>1\<close>.
  \<open>example_add\<close> is binary64 addition for a result from \<open>64\<close> up to \<open>128\<close>, \<open>example_sub\<close> is
  binary64 subtraction for a result from \<open>0.25\<close> up to \<open>0.5\<close>. The model answer has the rain
  probability \<open>33.1\<close> and the snow and storm probabilities \<open>33.2\<close>, as the binary64 numbers that
  these decimals are read as: \<open>4658410864561357 / 2\<^sup>4\<^sup>7\<close> and \<open>2336242306698445 / 2\<^sup>4\<^sup>6\<close>.
\<close>

definition round_to_multiple :: "real \<Rightarrow> real \<Rightarrow> real" where
  "round_to_multiple q x =
     (let y = x / q; f = \<lfloor>y\<rfloor>
      in of_int (if y - of_int f < 1 / 2 then f
                 else if 1 / 2 < y - of_int f then f + 1
                 else if even f then f else f + 1) * q)"

definition example_add :: "real \<Rightarrow> real \<Rightarrow> real" where
  "example_add a b = round_to_multiple (1 / 2 ^ 46) (a + b)"

definition example_sub :: "real \<Rightarrow> real \<Rightarrow> real" where
  "example_sub a b = round_to_multiple (1 / 2 ^ 54) (a - b)"

definition example_weather_thirds :: weather where
  "example_weather_thirds =
     convertModelDataToWeather
       (example_model
          \<lparr>precipitation_rain_probability := Some (4658410864561357 / 2 ^ 47),
           weather_conditions_storm_probability := Some (2336242306698445 / 2 ^ 46),
           precipitation_snow_probability := Some (2336242306698445 / 2 ^ 46)\<rparr>)"

text \<open>The page with \<open>95\<close> and \<open>0\<close> typed into the coordinate inputs, and their parse.\<close>

definition example_parseFloat :: "string \<Rightarrow> number" where
  "example_parseFloat t = (if t = ''95'' then Some 95 else if t = ''0'' then Some 0 else None)"

definition example_invalid_inputs :: app where
  "example_invalid_inputs = example_app\<lparr>latInput := ''95'', lngInput := ''0''\<rparr>"

section \<open>Theorems\<close>

text \<open>Evaluating \<open>digits\<close> on a numeral, one digit at a time.\<close>

lemma digits_numeral:
  "digits (numeral k) =
     (if (numeral k :: nat) < 10 then [digit_char (numeral k)]
      else digits (numeral k div 10) @ [digit_char (numeral k mod 10)])"
  "digits 0 = ''0''" "digits 1 = ''1''" "digits (Suc 0) = ''1''"
  by (subst digits.simps, simp add: digit_char_def)+

lemma includes_toLowerCase_iff:
  "includes_str (toLowerCase name) keyword = spec_keyword_match keyword name"
proof
  assume "includes_str (toLowerCase name) keyword"
  then obtain ps ss where "map toLowerCase_char name = ps @ (keyword @ ss)"
    by (auto simp: includes_str_def toLowerCase_def sublist_def)
  then obtain before rest where
    b: "name = before @ rest" and r: "map toLowerCase_char rest = keyword @ ss"
    using map_eq_append_conv [of toLowerCase_char name ps "keyword @ ss"] by auto
  from r obtain part after where "rest = part @ after" "map toLowerCase_char part = keyword"
    using map_eq_append_conv [of toLowerCase_char rest keyword ss] by auto
  with b have "name = before @ part @ after \<and> toLowerCase part = keyword"
    by (simp add: toLowerCase_def)
  then show "spec_keyword_match keyword name"
    unfolding spec_keyword_match_def by blast
next
  assume "spec_keyword_match keyword name"
  then obtain before part after where
    "name = before @ part @ after" "toLowerCase part = keyword"
    unfolding spec_keyword_match_def by blast
  then have "toLowerCase name = toLowerCase before @ keyword @ toLowerCase after"
    by (auto simp: toLowerCase_def)
  then show "includes_str (toLowerCase name) keyword"
    unfolding includes_str_def sublist_def by blast
qed

text \<open>
  Claim C7. For every variable name, \<open>getVariableCategory\<close> returns exactly one of the five
  categories temperature, moisture, radiation, precipitation, other, and the category is the
  one the specification's case-insensitive keyword match assigns in its priority order:
  temperature first, then moisture or humidity, then radiation or flux, then precipitation,
  rain or snow, and other for every remaining name.
\<close>

theorem C7_getVariableCategory_keyword_priority:
  "getVariableCategory name = spec_category name \<and>
   getVariableCategory name
     \<in> {''temperature'', ''moisture'', ''radiation'', ''precipitation'', ''other''}"
  unfolding getVariableCategory_def spec_category_def Let_def includes_toLowerCase_iff
  by simp

lemma category_examples:
  "getVariableCategory ''Air_Temperature_Humidity'' = ''temperature''"
  "getVariableCategory ''SOIL_MOISTURE'' = ''moisture''"
  "getVariableCategory ''Heat_Flux_Rain'' = ''radiation''"
  "getVariableCategory ''Snowfall'' = ''precipitation''"
  "getVariableCategory ''Wind_Speed'' = ''other''"
  by (simp_all add: getVariableCategory_def toLowerCase_def toLowerCase_char_def includes_str_def
      sublist_code prefix_code)

text \<open>
  The witness of C7: one name for each category, the first with two keywords of which the
  one of higher priority wins.
\<close>

theorem C7_category_witness:
  "getVariableCategory ''Air_Temperature_Humidity'' = ''temperature'' \<and>
   spec_category ''Air_Temperature_Humidity'' = ''temperature'' \<and>
   getVariableCategory ''SOIL_MOISTURE'' = ''moisture'' \<and>
   getVariableCategory ''Heat_Flux_Rain'' = ''radiation'' \<and>
   getVariableCategory ''Snowfall'' = ''precipitation'' \<and>
   getVariableCategory ''Wind_Speed'' = ''other'' \<and>
   spec_category ''Wind_Speed'' = ''other''"
  using C7_getVariableCategory_keyword_priority [of "''Air_Temperature_Humidity''"]
    C7_getVariableCategory_keyword_priority [of "''Wind_Speed''"]
  by (simp add: category_examples)


subsection \<open>The confidence display\<close>

lemma mset_insert_by: "mset (insert_by cmp x xs) = add_mset x (mset xs)"
  by (induction xs) auto

lemma mset_Array_sort: "mset (Array_sort cmp xs) = mset xs"
  unfolding Array_sort_def by (induction xs) (auto simp: mset_insert_by)

lemma set_insert_by: "set (insert_by cmp x xs) = insert x (set xs)"
  using mset_insert_by [of cmp x xs] by (metis set_mset_add_mset_insert set_mset_mset)

lemma descending_insert_by:
  "sorted_wrt descending xs \<Longrightarrow>
   sorted_wrt descending (insert_by (\<lambda>a b. ce_confidence b - ce_confidence a) x xs)"
proof (induction xs)
  case Nil
  then show ?case by simp
next
  case (Cons y ys)
  then show ?case
    by (auto simp: set_insert_by descending_def)
qed

lemma descending_Array_sort:
  "sorted_wrt descending (Array_sort (\<lambda>a b. ce_confidence b - ce_confidence a) xs)"
  unfolding Array_sort_def by (induction xs) (auto simp: descending_insert_by)

lemma topConfidence_props:
  "length (topConfidence entries) = min 5 (length entries)"
  "sorted_wrt descending (topConfidence entries)"
  "\<exists>rest. mset entries = mset (topConfidence entries) + mset rest \<and>
      (\<forall>a \<in> set (topConfidence entries). \<forall>b \<in> set rest. descending a b)"
proof -
  let ?S = "Array_sort (\<lambda>a b. ce_confidence b - ce_confidence a) entries"
  have len: "length ?S = length entries"
    by (metis mset_Array_sort size_mset)
  show "length (topConfidence entries) = min 5 (length entries)"
    by (simp add: topConfidence_def slice0_def len min.commute)
  have S: "sorted_wrt descending (take 5 ?S @ drop 5 ?S)"
    by (simp add: descending_Array_sort)
  then show "sorted_wrt descending (topConfidence entries)"
    unfolding topConfidence_def slice0_def sorted_wrt_append by blast
  have "mset entries = mset (take 5 ?S) + mset (drop 5 ?S)"
    by (metis append_take_drop_id mset_Array_sort mset_append)
  moreover from S have "\<forall>a \<in> set (take 5 ?S). \<forall>b \<in> set (drop 5 ?S). descending a b"
    unfolding sorted_wrt_append by blast
  ultimately show "\<exists>rest. mset entries = mset (topConfidence entries) + mset rest \<and>
      (\<forall>a \<in> set (topConfidence entries). \<forall>b \<in> set rest. descending a b)"
    unfolding topConfidence_def slice0_def by blast
qed

text \<open>
  Claim C1. For every confidence list received from the backend, the confidence display
  holds at most five entries: none (the one paragraph saying that nothing is available) when
  the list is absent or empty, and otherwise the items of \<open>topConfidence\<close>, which are
  \<open>min 5 n\<close> of the \<open>n\<close> input entries, in descending order of confidence, every entry left out
  having a confidence no higher than any entry shown. The function is the same text in both
  dashboard classes.
\<close>

theorem C1_top_five_confidence:
  "(confidence = None \<or> confidence = Some [] \<longrightarrow>
      displayConfidenceIntervals confidence
        = [Paragraph ''Confidence intervals not available for this prediction.'']) \<and>
   (confidence = Some entries \<and> entries \<noteq> [] \<longrightarrow>
      displayConfidenceIntervals confidence = map confidenceItem (topConfidence entries) \<and>
      length (topConfidence entries) \<le> 5 \<and>
      length (topConfidence entries) = min 5 (length entries) \<and>
      sorted_wrt descending (topConfidence entries) \<and>
      (\<exists>rest. mset entries = mset (topConfidence entries) + mset rest \<and>
          (\<forall>a \<in> set (topConfidence entries). \<forall>b \<in> set rest. descending a b)))"
  using topConfidence_props [of entries]
  by (auto simp: displayConfidenceIntervals_def)

lemma example_top:
  "topConfidence example_confidence =
     [\<lparr>ce_variable = ''rainfall'', ce_confidence = 0.95\<rparr>,
      \<lparr>ce_variable = ''soil_moisture'', ce_confidence = 0.9\<rparr>,
      \<lparr>ce_variable = ''snow_depth'', ce_confidence = 0.8\<rparr>,
      \<lparr>ce_variable = ''net_radiation'', ce_confidence = 0.7\<rparr>,
      \<lparr>ce_variable = ''wind_speed'', ce_confidence = 0.6\<rparr>]"
  by (simp add: topConfidence_def example_confidence_def Array_sort_def slice0_def)

text \<open>The witness of C1: six entries, of which the five most confident are shown.\<close>

theorem C1_top_five_witness:
  "displayConfidenceIntervals (Some example_confidence) =
     [ConfidenceItem ''rainfall'' 95 ''Confidence: 95.0%'',
      ConfidenceItem ''soil_moisture'' 90 ''Confidence: 90.0%'',
      ConfidenceItem ''snow_depth'' 80 ''Confidence: 80.0%'',
      ConfidenceItem ''net_radiation'' 70 ''Confidence: 70.0%'',
      ConfidenceItem ''wind_speed'' 60 ''Confidence: 60.0%''] \<and>
   displayConfidenceIntervals None
     = [Paragraph ''Confidence intervals not available for this prediction.'']"
  using C1_top_five_confidence [of "Some example_confidence" example_confidence]
    C1_top_five_confidence [of None]
  by (simp add: example_top)
     (simp add: example_confidence_def confidenceItem_def toFixed_def digits_numeral digit_char_def)


subsection \<open>The weather summary\<close>

lemma foldl_snoc: "foldl (\<lambda>container item. container @ [item]) acc xs = acc @ xs"
  by (induction xs arbitrary: acc) auto

lemma displayWeatherSummary_eq: "displayWeatherSummary summary = weatherItems summary"
  by (simp add: displayWeatherSummary_def foldl_snoc)

lemma get_field_cong: "summary k = summary' k \<Longrightarrow> get_field summary k = get_field summary' k"
  by (simp add: get_field_def)

text \<open>
  Claim C8. For every summary object received from the backend, the weather summary renders
  exactly eight items, whose values are the fields temperature, feels_like,
  rain_probability, snow_probability, storm_probability, sunshine_index, humidity_index and
  wind_speed of the object, in this order (a field the object lacks is rendered as
  \<open>undefined\<close>, not left out); no other field is shown: two summary objects that agree on the
  eight fields render alike. The function is the same text in both dashboard classes.
\<close>

theorem C8_summary_eight_fields:
  "length (displayWeatherSummary summary) = 8 \<and>
   map item_value (displayWeatherSummary summary) = map (get_field summary) summary_fields \<and>
   ((\<forall>k \<in> set summary_fields. summary k = summary' k) \<longrightarrow>
      displayWeatherSummary summary = displayWeatherSummary summary')"
proof (intro conjI impI)
  show "length (displayWeatherSummary summary) = 8"
    by (simp add: displayWeatherSummary_eq weatherItems_def)
  show "map item_value (displayWeatherSummary summary) = map (get_field summary) summary_fields"
    by (simp add: displayWeatherSummary_eq weatherItems_def summary_fields_def)
  assume "\<forall>k \<in> set summary_fields. summary k = summary' k"
  then have "\<forall>k \<in> set summary_fields. get_field summary k = get_field summary' k"
    by (simp add: get_field_def)
  then show "displayWeatherSummary summary = displayWeatherSummary summary'"
    by (simp add: displayWeatherSummary_eq weatherItems_def summary_fields_def)
qed

lemma example_summary_agree:
  "\<forall>k \<in> set summary_fields. example_summary_extra k = example_summary k"
  by (simp add: summary_fields_def example_summary_def example_summary_extra_def)

lemma example_summary_values:
  "map (get_field example_summary_extra) summary_fields =
     [Num 21.4, Num 19.8, Num 30, Num 0, Num 5, Num 65, Num 50, Num 3.2]"
  by (simp add: summary_fields_def example_summary_extra_def get_field_def)

text \<open>The witness of C8: a summary with two more fields renders as the one without them.\<close>

theorem C8_summary_witness:
  "map item_value (displayWeatherSummary example_summary_extra) =
     [Num 21.4, Num 19.8, Num 30, Num 0, Num 5, Num 65, Num 50, Num 3.2] \<and>
   displayWeatherSummary example_summary_extra = displayWeatherSummary example_summary"
proof -
  note c8 = C8_summary_eight_fields [of example_summary_extra example_summary]
  from c8 have "map item_value (displayWeatherSummary example_summary_extra)
      = map (get_field example_summary_extra) summary_fields"
    by blast
  then have "map item_value (displayWeatherSummary example_summary_extra) =
     [Num 21.4, Num 19.8, Num 30, Num 0, Num 5, Num 65, Num 50, Num 3.2]"
    by (simp only: example_summary_values)
  moreover from c8 example_summary_agree
  have "displayWeatherSummary example_summary_extra = displayWeatherSummary example_summary"
    by blast
  ultimately show ?thesis by blast
qed


subsection \<open>The variables table\<close>

lemma digits_nonempty: "digits n \<noteq> []"
  by (subst digits.simps) simp

lemma digit_char_in: "d < 10 \<Longrightarrow> digit_char d \<in> set ''0123456789''"
proof -
  assume "d < 10"
  then have "d < length ''0123456789''" by simp
  then show ?thesis unfolding digit_char_def by (rule nth_mem)
qed

lemma digits_are_digits: "set (digits n) \<subseteq> set ''0123456789''"
proof (induction n rule: digits.induct)
  case (1 n)
  show ?case
  proof (cases "n < 10")
    case True
    then show ?thesis
      by (subst digits.simps) (use digit_char_in [of n] in simp)
  next
    case False
    with 1 have "set (digits (n div 10)) \<subseteq> set ''0123456789''" by simp
    moreover have "digit_char (n mod 10) \<in> set ''0123456789''"
      by (rule digit_char_in) simp
    ultimately show ?thesis
      using False by (subst digits.simps) simp
  qed
qed

lemma toFixed_1_shape:
  "\<exists>sign whole d. toFixed x 1 = sign @ whole @ ''.'' @ [d] \<and>
      (sign = [] \<or> sign = ''-'') \<and> whole \<noteq> [] \<and>
      set whole \<subseteq> set ''0123456789'' \<and> d \<in> set ''0123456789''"
proof -
  define m where "m = digits (nat \<lfloor>\<bar>x\<bar> * 10 ^ 1 + 1 / 2\<rfloor>)"
  define p where "p = (if length m \<le> 1 then replicate (1 + 1 - length m) (CHR ''0'') @ m else m)"
  have m: "m \<noteq> []" "set m \<subseteq> set ''0123456789''"
    unfolding m_def using digits_nonempty digits_are_digits by blast+
  have p2: "2 \<le> length p"
    using m(1) unfolding p_def by (cases m) (auto simp: Suc_le_eq)
  have pd: "set p \<subseteq> set ''0123456789''"
    using m(2) unfolding p_def by auto
  have tf: "toFixed x 1 = (if x < 0 then ''-'' else []) @ take (length p - 1) p @ ''.'' @ drop (length p - 1) p"
    unfolding toFixed_def Let_def p_def m_def by simp
  from p2 have "p \<noteq> []" by auto
  then have split: "p = butlast p @ [last p]" by simp
  have tk: "take (length p - 1) p = butlast p" by (simp add: butlast_conv_take)
  have dr: "drop (length p - 1) p = [last p]"
    using p2 \<open>p \<noteq> []\<close> by (metis append_butlast_last_id append_eq_conv_conj length_butlast)
  have bl: "butlast p \<noteq> []" using p2 by (cases p) (auto split: if_splits)
  have "set (butlast p) \<subseteq> set ''0123456789''" using pd by (meson in_set_butlastD subset_iff)
  moreover have "last p \<in> set ''0123456789''" using pd \<open>p \<noteq> []\<close> last_in_set by blast
  ultimately show ?thesis
    using tf tk dr bl by (intro exI [of _ "if x < 0 then ''-'' else []"] exI [of _ "butlast p"] exI [of _ "last p"]) auto
qed

lemma percent_not_NA: "s @ ''%'' \<noteq> ''N/A''"
proof
  assume "s @ ''%'' = ''N/A''"
  then have "last (s @ ''%'') = last ''N/A''" by simp
  then show False by simp
qed

lemma confidence_cell_row [simp]:
  "confidence_cell (variable_row v) = confidence_text (v_confidence v)"
  by (simp add: variable_row_def)

lemma confidence_text_simps:
  "confidence_text Absent = ''N/A''"
  "confidence_text NullScore = ''N/A''"
  "confidence_text (Score 0) = ''N/A''"
  "c \<noteq> 0 \<Longrightarrow> confidence_text (Score c) = toFixed (c * 100) 1 @ ''%''"
  by (simp_all add: confidence_text_def)

text \<open>
  Claim C9. In the variables table the confidence cell of a variable whose confidence is
  absent, \<open>null\<close> or exactly \<open>0\<close> reads \<open>N/A\<close>; a confidence that is a non-zero number is rendered
  as \<open>(confidence * 100).toFixed(1)\<close> followed by \<open>%\<close>, which is not \<open>N/A\<close> and (below the
  magnitude \<open>10\<^sup>2\<^sup>1\<close>, where \<open>toFixed\<close> is in fixed notation) has digits, a point and exactly one
  decimal digit. A confidence of \<open>0\<close> gives the same row as a missing one. Every variable of
  the list has its row in the table. The function is the same text in both dashboard
  classes.
\<close>

theorem C9_confidence_cell_falsy:
  "(v_confidence v = Absent \<or> v_confidence v = NullScore \<or> v_confidence v = Score 0 \<longrightarrow>
      confidence_cell (variable_row v) = ''N/A'') \<and>
   (v_confidence v = Score c \<and> c \<noteq> 0 \<longrightarrow>
      confidence_cell (variable_row v) = toFixed (c * 100) 1 @ ''%'' \<and>
      confidence_cell (variable_row v) \<noteq> ''N/A'' \<and>
      (\<bar>c * 100\<bar> < 10 ^ 21 \<longrightarrow>
        (\<exists>sign whole d. toFixed (c * 100) 1 = sign @ whole @ ''.'' @ [d] \<and>
           (sign = [] \<or> sign = ''-'') \<and> whole \<noteq> [] \<and>
           set whole \<subseteq> set ''0123456789'' \<and> d \<in> set ''0123456789''))) \<and>
   variable_row (v\<lparr>v_confidence := Score 0\<rparr>) = variable_row (v\<lparr>v_confidence := Absent\<rparr>) \<and>
   (v \<in> set vs \<longrightarrow> variable_row v \<in> set (displayVariablesTable vs))"
proof (intro conjI impI)
  assume "v_confidence v = Absent \<or> v_confidence v = NullScore \<or> v_confidence v = Score 0"
  then show "confidence_cell (variable_row v) = ''N/A''"
    by (auto simp only: confidence_cell_row confidence_text_simps)
next
  assume a: "v_confidence v = Score c \<and> c \<noteq> 0"
  then show t: "confidence_cell (variable_row v) = toFixed (c * 100) 1 @ ''%''"
    by (simp add: confidence_text_simps)
  show "confidence_cell (variable_row v) \<noteq> ''N/A''"
    unfolding t by (rule percent_not_NA)
  show "\<exists>sign whole d. toFixed (c * 100) 1 = sign @ whole @ ''.'' @ [d] \<and>
           (sign = [] \<or> sign = ''-'') \<and> whole \<noteq> [] \<and>
           set whole \<subseteq> set ''0123456789'' \<and> d \<in> set ''0123456789''"
    by (rule toFixed_1_shape)
next
  show "variable_row (v\<lparr>v_confidence := Score 0\<rparr>) = variable_row (v\<lparr>v_confidence := Absent\<rparr>)"
    by (simp add: variable_row_def confidence_text_simps)
next
  assume "v \<in> set vs"
  then show "variable_row v \<in> set (displayVariablesTable vs)"
    by (simp add: displayVariablesTable_def)
qed

lemma example_percent: "toFixed (0.876 * 100) 1 = ''87.6''"
  by (simp add: toFixed_def digits_numeral digit_char_def)

text \<open>The witness of C9: a missing, a \<open>null\<close>, a zero and a non-zero confidence.\<close>

theorem C9_confidence_cell_witness:
  "confidence_cell (variable_row (example_variable Absent)) = ''N/A'' \<and>
   confidence_cell (variable_row (example_variable NullScore)) = ''N/A'' \<and>
   confidence_cell (variable_row (example_variable (Score 0))) = ''N/A'' \<and>
   confidence_cell (variable_row (example_variable (Score 0.876))) = ''87.6%''"
proof -
  have v: "v_confidence (example_variable c) = c" for c
    by (simp add: example_variable_def)
  have "confidence_cell (variable_row (example_variable Absent)) = ''N/A''"
    using C9_confidence_cell_falsy [of "example_variable Absent"] v [of Absent] by blast
  moreover have "confidence_cell (variable_row (example_variable NullScore)) = ''N/A''"
    using C9_confidence_cell_falsy [of "example_variable NullScore"] v [of NullScore] by blast
  moreover have "confidence_cell (variable_row (example_variable (Score 0))) = ''N/A''"
    using C9_confidence_cell_falsy [of "example_variable (Score 0)"] v [of "Score 0"] by blast
  moreover have "confidence_cell (variable_row (example_variable (Score 0.876)))
      = toFixed (0.876 * 100) 1 @ ''%''"
  proof -
    have "(0.876 :: real) \<noteq> 0" by simp
    with C9_confidence_cell_falsy [of "example_variable (Score 0.876)" "0.876"] v [of "Score 0.876"]
    show ?thesis by blast
  qed
  ultimately show ?thesis
    by (simp only: example_percent append.simps)
qed


subsection \<open>Coordinates\<close>

text \<open>
  Claim C6. For every pair of numbers, \<open>isValidCoordinate\<close> accepts the pair exactly when the
  latitude lies in \<open>[-90, 90]\<close> and the longitude in \<open>[-180, 180]\<close> (\<open>NaN\<close> is in neither). A pair
  outside these bounds is rejected at each of the three places where it is entered: the
  latitude and longitude inputs leave the page as it was, the format conversion keeps the
  selected coordinates and shows an error, and the search does not take the pair as
  coordinates but hands the query to the geocoder as a place name.
\<close>

theorem C6_isValidCoordinate_bounds:
  "(isValidCoordinate la lo \<longleftrightarrow>
      (\<exists>x y. la = Some x \<and> lo = Some y \<and> - 90 \<le> x \<and> x \<le> 90 \<and> - 180 \<le> y \<and> y \<le> 180)) \<and>
   (\<not> isValidCoordinate (parseFloat (latInput s)) (parseFloat (lngInput s)) \<longrightarrow>
      updateMapFromInputs parseFloat s = s) \<and>
   (\<not> isValidCoordinate (parseFloat (latInput s)) (parseFloat (lngInput s)) \<longrightarrow>
      currentCoords (convertCoordinateFormat parseFloat s) = currentCoords s \<and>
      coordError (convertCoordinateFormat parseFloat s) \<noteq> None) \<and>
   (query \<noteq> [] \<and> coordMatch query = Some (g1, g2) \<and>
    \<not> isValidCoordinate (parseFloat g1) (parseFloat g2) \<longrightarrow>
      handleSearch coordMatch parseFloat geocoder query s = geocodeLocation geocoder query s)"
proof (intro conjI)
  show "isValidCoordinate la lo \<longleftrightarrow>
      (\<exists>x y. la = Some x \<and> lo = Some y \<and> - 90 \<le> x \<and> x \<le> 90 \<and> - 180 \<le> y \<and> y \<le> 180)"
    by (cases la; cases lo) (auto simp: isValidCoordinate_def)
next
  show "\<not> isValidCoordinate (parseFloat (latInput s)) (parseFloat (lngInput s)) \<longrightarrow>
      updateMapFromInputs parseFloat s = s"
    by (simp add: updateMapFromInputs_def Let_def)
next
  show "\<not> isValidCoordinate (parseFloat (latInput s)) (parseFloat (lngInput s)) \<longrightarrow>
      currentCoords (convertCoordinateFormat parseFloat s) = currentCoords s \<and>
      coordError (convertCoordinateFormat parseFloat s) \<noteq> None"
    by (simp add: convertCoordinateFormat_def showCoordinateError_def Let_def)
next
  show "query \<noteq> [] \<and> coordMatch query = Some (g1, g2) \<and>
    \<not> isValidCoordinate (parseFloat g1) (parseFloat g2) \<longrightarrow>
      handleSearch coordMatch parseFloat geocoder query s = geocodeLocation geocoder query s"
    by (simp add: handleSearch_def Let_def)
qed

text \<open>The witness of C6: latitude \<open>95\<close> typed into the inputs and into the search box.\<close>

theorem C6_invalid_coordinates_witness:
  "\<not> isValidCoordinate (Some 95) (Some 0) \<and>
   updateMapFromInputs example_parseFloat example_invalid_inputs = example_invalid_inputs \<and>
   currentCoords (convertCoordinateFormat example_parseFloat example_invalid_inputs)
     = Some \<lparr>lat = 40.7128, lng = - 74.006\<rparr> \<and>
   coordError (convertCoordinateFormat example_parseFloat example_invalid_inputs)
     = Some ''Invalid coordinate values.'' \<and>
   handleSearch (\<lambda>q. Some (''95'', ''0'')) example_parseFloat (\<lambda>q. NoResults) ''95, 0''
       example_invalid_inputs
     = showCoordinateError ''Location not found. Please try a different search term.''
         example_invalid_inputs"
  using C6_isValidCoordinate_bounds [of "Some 95" "Some 0" example_parseFloat
      example_invalid_inputs "''95, 0''" "\<lambda>q. Some (''95'', ''0'')" "''95''" "''0''"
      "\<lambda>q. NoResults"]
  by (simp add: example_parseFloat_def example_invalid_inputs_def example_app_def
      convertCoordinateFormat_def showCoordinateError_def geocodeLocation_def
      isValidCoordinate_def Let_def)

subsection \<open>Rounding\<close>

lemma num_or_zero: "num_or a (Some 0) = Some (or_zero a)"
  by (cases a) (auto simp: num_or_def or_zero_def)

lemma Math_round_of_int [simp]: "Math_round (of_int k) = of_int k"
  unfolding Math_round_def by (simp add: floor_unique)

lemma Math_round_idem [simp]: "Math_round (Math_round x) = Math_round x"
  unfolding Math_round_def by (simp add: floor_unique)

lemma Math_round_zero [simp]: "Math_round 0 = 0"
  unfolding Math_round_def by simp

lemma Math_round_nonneg: "0 \<le> x \<Longrightarrow> 0 \<le> Math_round x"
  unfolding Math_round_def by simp

lemma num_round_Some: "num_round (Some x) = Some (Math_round x)"
  by (simp add: num_round_def)

lemma Math_round_add_int: "Math_round (Math_round x + of_int k) = Math_round x + of_int k"
  unfolding Math_round_def by (simp add: floor_unique)

lemma Math_round_shift:
  "Math_round (Math_round x - 2) = Math_round x - 2"
  "Math_round (Math_round x - 8) = Math_round x - 8"
  "Math_round (Math_round x - 5) = Math_round x - 5"
  "Math_round (Math_round x + 3) = Math_round x + 3"
  "Math_round (Math_round x + 2) = Math_round x + 2"
  using Math_round_add_int [of x "- 2"] Math_round_add_int [of x "- 8"]
    Math_round_add_int [of x "- 5"] Math_round_add_int [of x 3] Math_round_add_int [of x 2]
  by simp_all

subsection \<open>The probabilities\<close>

lemma calculateWeatherProbabilitiesFromModel_eq:
  "calculateWeatherProbabilitiesFromModel data =
    \<lparr>sunny = Some (Math_round (max 0 (100 -
        (or_zero (precipprob data) + or_zero (snowProb data) + or_zero (stormProb data))))),
     rainy = Some (Math_round (or_zero (precipprob data))),
     snowy = Some (Math_round (or_zero (snowProb data))),
     storm = Some (Math_round (or_zero (stormProb data)))\<rparr>"
  by (simp add: calculateWeatherProbabilitiesFromModel_def num_or_zero num_round_def Let_def)

lemma num_op_exact: "num_op (+) = num_add" "num_op (-) = num_sub"
proof -
  have "num_op (+) a b = num_add a b" for a b by (cases a; cases b) simp_all
  then show "num_op (+) = num_add" by (intro ext)
  have "num_op (-) a b = num_sub a b" for a b by (cases a; cases b) simp_all
  then show "num_op (-) = num_sub" by (intro ext)
qed

lemma calculateWeatherProbabilitiesFromModel_with_exact:
  "calculateWeatherProbabilitiesFromModel data
     = calculateWeatherProbabilitiesFromModel_with (+) (-) data"
  by (simp add: calculateWeatherProbabilitiesFromModel_def
      calculateWeatherProbabilitiesFromModel_with_def probabilities_before_rounding_def
      num_op_exact Let_def)

lemma probabilities_before_rounding_eq:
  "probabilities_before_rounding fl_add fl_sub data =
     \<lparr>sunny = Some (max 0 (fl_sub 100 (fl_add (fl_add (or_zero (precipprob data))
                 (or_zero (snowProb data))) (or_zero (stormProb data))))),
      rainy = Some (or_zero (precipprob data)),
      snowy = Some (or_zero (snowProb data)),
      storm = Some (or_zero (stormProb data))\<rparr>"
  by (simp add: probabilities_before_rounding_def num_or_zero Let_def)

text \<open>
  Claim C10, as amended. With \<open>r\<close>, \<open>s\<close> and \<open>t\<close> the rain, snow and storm probabilities of the
  model output, a missing one read as \<open>0\<close>, and with the platform's addition and subtraction,
  whatever their rounding, \<open>calculateWeatherProbabilitiesFromModel\<close> computes \<open>o1 = r + s\<close>,
  \<open>o2 = o1 + t\<close> and \<open>d = 100 - o2\<close>; its four probabilities before rounding are \<open>max(0, d)\<close>,
  \<open>r\<close>, \<open>s\<close> and \<open>t\<close>, and it returns each of them rounded to the nearest integer by
  \<open>Math.round\<close>. The returned sunny value is never negative. Whenever the computed \<open>d\<close> is
  not negative, the four values before rounding sum to \<open>100\<close> up to the rounding errors of the
  three operations: the sum is \<open>100\<close> plus the error of the subtraction minus the errors of the
  two additions. Hence they sum to exactly \<open>100\<close> whenever the three operations are exact and
  \<open>r + s + t \<le> 100\<close>; in binary64 they need not.
\<close>

theorem C10_sunny_probability_rounded:
  "r = or_zero (precipprob data) \<Longrightarrow> s = or_zero (snowProb data) \<Longrightarrow>
   t = or_zero (stormProb data) \<Longrightarrow>
   o1 = fl_add r s \<Longrightarrow> o2 = fl_add o1 t \<Longrightarrow> d = fl_sub 100 o2 \<Longrightarrow>
   probabilities_before_rounding fl_add fl_sub data
     = \<lparr>sunny = Some (max 0 d), rainy = Some r, snowy = Some s, storm = Some t\<rparr> \<and>
   calculateWeatherProbabilitiesFromModel_with fl_add fl_sub data
     = \<lparr>sunny = Some (Math_round (max 0 d)), rainy = Some (Math_round r),
        snowy = Some (Math_round s), storm = Some (Math_round t)\<rparr> \<and>
   calculateWeatherProbabilitiesFromModel data
     = calculateWeatherProbabilitiesFromModel_with (+) (-) data \<and>
   0 \<le> Math_round (max 0 d) \<and>
   (0 \<le> d \<longrightarrow>
      max 0 d + r + s + t = 100 + (d - (100 - o2)) - (o1 - (r + s)) - (o2 - (o1 + t))) \<and>
   (o1 = r + s \<and> o2 = o1 + t \<and> d = 100 - o2 \<and> r + s + t \<le> 100 \<longrightarrow>
      max 0 d + r + s + t = 100)"
proof (intro conjI impI)
  assume a: "r = or_zero (precipprob data)" "s = or_zero (snowProb data)"
    "t = or_zero (stormProb data)" "o1 = fl_add r s" "o2 = fl_add o1 t" "d = fl_sub 100 o2"
  show b: "probabilities_before_rounding fl_add fl_sub data
     = \<lparr>sunny = Some (max 0 d), rainy = Some r, snowy = Some s, storm = Some t\<rparr>"
    unfolding a by (rule probabilities_before_rounding_eq)
  show "calculateWeatherProbabilitiesFromModel_with fl_add fl_sub data
     = \<lparr>sunny = Some (Math_round (max 0 d)), rainy = Some (Math_round r),
        snowy = Some (Math_round s), storm = Some (Math_round t)\<rparr>"
    unfolding calculateWeatherProbabilitiesFromModel_with_def b
    by (simp add: num_round_Some)
  show "calculateWeatherProbabilitiesFromModel data
     = calculateWeatherProbabilitiesFromModel_with (+) (-) data"
    by (rule calculateWeatherProbabilitiesFromModel_with_exact)
  show "0 \<le> Math_round (max 0 d)"
    by (rule Math_round_nonneg) simp
  show "max 0 d + r + s + t = 100 + (d - (100 - o2)) - (o1 - (r + s)) - (o2 - (o1 + t))"
    if "0 \<le> d" using that by simp
  show "max 0 d + r + s + t = 100"
    if "o1 = r + s \<and> o2 = o1 + t \<and> d = 100 - o2 \<and> r + s + t \<le> 100" using that by auto
qed

lemma example_thirds_values:
  "or_zero (precipprob example_weather_thirds) = 4658410864561357 / 2 ^ 47"
  "or_zero (snowProb example_weather_thirds) = 2336242306698445 / 2 ^ 46"
  "or_zero (stormProb example_weather_thirds) = 2336242306698445 / 2 ^ 46"
  by (simp_all add: example_weather_thirds_def convertModelDataToWeather_def example_model_def
      or_zero_def)

lemma example_thirds_operations:
  "example_add (4658410864561357 / 2 ^ 47) (2336242306698445 / 2 ^ 46)
     = 4665447738979124 / 2 ^ 46"
  "example_add (4665447738979124 / 2 ^ 46) (2336242306698445 / 2 ^ 46)
     = 7001690045677569 / 2 ^ 46"
  "example_sub 100 (7001690045677569 / 2 ^ 46) = 35184372088831 / 2 ^ 46"
  by (simp_all add: example_add_def example_sub_def round_to_multiple_def Let_def)

lemma example_exact_values:
  "or_zero (precipprob (convertModelDataToWeather example_model)) = 0.4"
  "or_zero (snowProb (convertModelDataToWeather example_model)) = 0"
  "or_zero (stormProb (convertModelDataToWeather example_model)) = 0"
  by (simp_all add: convertModelDataToWeather_def example_model_def or_zero_def)

text \<open>
  The witness of C10. In exact arithmetic, rain \<open>0.4\<close>, snow \<open>0\<close> and storm \<open>0\<close> give the values
  \<open>99.6\<close>, \<open>0.4\<close>, \<open>0\<close>, \<open>0\<close> before rounding, which sum to \<open>100\<close>, and \<open>100\<close>, \<open>0\<close>, \<open>0\<close>, \<open>0\<close> after.
  In binary64, rain \<open>33.1\<close>, snow \<open>33.2\<close> and storm \<open>33.2\<close> give \<open>o1 = 66.30000000000001\<close> (the
  exact sum lies halfway between two representable numbers and is rounded up by \<open>2\<^sup>-\<^sup>4\<^sup>7\<close>),
  \<open>o2 = 99.50000000000001\<close> and \<open>d = 0.4999999999999858\<close> (both exact); the values before
  rounding sum to \<open>100 - 2\<^sup>-\<^sup>4\<^sup>7\<close>, and the sunny probability returned is \<open>0\<close>.
\<close>

theorem C10_sunny_probability_witness:
  "probabilities_before_rounding (+) (-) (convertModelDataToWeather example_model)
     = \<lparr>sunny = Some 99.6, rainy = Some 0.4, snowy = Some 0, storm = Some 0\<rparr> \<and>
   calculateWeatherProbabilitiesFromModel (convertModelDataToWeather example_model)
     = \<lparr>sunny = Some 100, rainy = Some 0, snowy = Some 0, storm = Some 0\<rparr> \<and>
   (99.6 :: real) + 0.4 + 0 + 0 = 100 \<and>
   probabilities_before_rounding example_add example_sub example_weather_thirds
     = \<lparr>sunny = Some (35184372088831 / 2 ^ 46), rainy = Some (4658410864561357 / 2 ^ 47),
        snowy = Some (2336242306698445 / 2 ^ 46), storm = Some (2336242306698445 / 2 ^ 46)\<rparr> \<and>
   calculateWeatherProbabilitiesFromModel_with example_add example_sub example_weather_thirds
     = \<lparr>sunny = Some 0, rainy = Some 33, snowy = Some 33, storm = Some 33\<rparr> \<and>
   (35184372088831 / 2 ^ 46 + 4658410864561357 / 2 ^ 47 + 2336242306698445 / 2 ^ 46
      + 2336242306698445 / 2 ^ 46 :: real) = 100 - 1 / 2 ^ 47"
proof -
  have plus: "(0.4 :: real) = 0.4 + 0" and minus: "(99.6 :: real) = 100 - 0.4"
    by simp_all
  note exact = C10_sunny_probability_rounded
    [where fl_add = "(+)" and fl_sub = "(-)",
      OF example_exact_values(1) [symmetric] example_exact_values(2) [symmetric]
        example_exact_values(3) [symmetric] plus plus minus]
  note rounded = C10_sunny_probability_rounded
    [where fl_add = example_add and fl_sub = example_sub,
      OF example_thirds_values(1) [symmetric] example_thirds_values(2) [symmetric]
        example_thirds_values(3) [symmetric] example_thirds_operations(1) [symmetric]
        example_thirds_operations(2) [symmetric] example_thirds_operations(3) [symmetric]]
  have g: "Math_round (max 0 (35184372088831 / 2 ^ 46)) = 0"
    "Math_round (4658410864561357 / 2 ^ 47) = 33" "Math_round (2336242306698445 / 2 ^ 46) = 33"
    "Math_round (max 0 99.6) = 100" "Math_round 0.4 = 0"
    by (simp_all add: Math_round_def)
  have m: "max 0 (35184372088831 / 2 ^ 46) = (35184372088831 / 2 ^ 46 :: real)"
    "max 0 99.6 = (99.6 :: real)"
    by simp_all
  from exact have "probabilities_before_rounding (+) (-) (convertModelDataToWeather example_model)
     = \<lparr>sunny = Some (max 0 99.6), rainy = Some 0.4, snowy = Some 0, storm = Some 0\<rparr>"
    by (rule conjunct1)
  then have 1: "probabilities_before_rounding (+) (-) (convertModelDataToWeather example_model)
     = \<lparr>sunny = Some 99.6, rainy = Some 0.4, snowy = Some 0, storm = Some 0\<rparr>"
    by (simp only: m)
  from exact have "calculateWeatherProbabilitiesFromModel (convertModelDataToWeather example_model)
     = \<lparr>sunny = Some (Math_round (max 0 99.6)), rainy = Some (Math_round 0.4),
        snowy = Some (Math_round 0), storm = Some (Math_round 0)\<rparr>"
    by simp
  then have 2: "calculateWeatherProbabilitiesFromModel (convertModelDataToWeather example_model)
     = \<lparr>sunny = Some 100, rainy = Some 0, snowy = Some 0, storm = Some 0\<rparr>"
    by (simp only: g Math_round_zero)
  have 3: "(99.6 :: real) + 0.4 + 0 + 0 = 100"
    by simp
  from rounded
  have "probabilities_before_rounding example_add example_sub example_weather_thirds
     = \<lparr>sunny = Some (max 0 (35184372088831 / 2 ^ 46)),
        rainy = Some (4658410864561357 / 2 ^ 47),
        snowy = Some (2336242306698445 / 2 ^ 46),
        storm = Some (2336242306698445 / 2 ^ 46)\<rparr>"
    by (rule conjunct1)
  then have 4: "probabilities_before_rounding example_add example_sub example_weather_thirds
     = \<lparr>sunny = Some (35184372088831 / 2 ^ 46), rainy = Some (4658410864561357 / 2 ^ 47),
        snowy = Some (2336242306698445 / 2 ^ 46), storm = Some (2336242306698445 / 2 ^ 46)\<rparr>"
    by (simp only: m)
  from rounded
  have "calculateWeatherProbabilitiesFromModel_with example_add example_sub example_weather_thirds
     = \<lparr>sunny = Some (Math_round (max 0 (35184372088831 / 2 ^ 46))),
        rainy = Some (Math_round (4658410864561357 / 2 ^ 47)),
        snowy = Some (Math_round (2336242306698445 / 2 ^ 46)),
        storm = Some (Math_round (2336242306698445 / 2 ^ 46))\<rparr>"
    by (rule conjunct1 [OF conjunct2])
  then have 5:
    "calculateWeatherProbabilitiesFromModel_with example_add example_sub example_weather_thirds
     = \<lparr>sunny = Some 0, rainy = Some 33, snowy = Some 33, storm = Some 33\<rparr>"
    by (simp only: g)
  have 6: "(35184372088831 / 2 ^ 46 + 4658410864561357 / 2 ^ 47 + 2336242306698445 / 2 ^ 46
      + 2336242306698445 / 2 ^ 46 :: real) = 100 - 1 / 2 ^ 47"
    by simp
  from 1 2 3 4 5 6 show ?thesis
    by (intro conjI)
qed

text \<open>
  Claim C10 as stated fails: with rain \<open>0.4\<close>, snow \<open>0\<close> and storm \<open>0\<close> the function returns
  the sunny probability \<open>100\<close>, while \<open>max(0, 100 - (0.4 + 0 + 0))\<close> is \<open>99.6\<close>.
\<close>

theorem C10_sunny_not_unrounded_counterexample:
  "precipprob (convertModelDataToWeather example_model) = Some 0.4 \<and>
   snowProb (convertModelDataToWeather example_model) = Some 0 \<and>
   stormProb (convertModelDataToWeather example_model) = Some 0 \<and>
   sunny (calculateWeatherProbabilitiesFromModel (convertModelDataToWeather example_model))
     = Some 100 \<and>
   max 0 (100 - (0.4 + 0 + 0)) = (99.6 :: real)"
  by (simp add: calculateWeatherProbabilitiesFromModel_eq convertModelDataToWeather_def
      example_model_def or_zero_def Math_round_def)

subsection \<open>The forecast horizon\<close>



lemma predictWeather_rejects:
  "num_lt (daysFromNow e) (Some 0) \<or> num_gt (daysFromNow e) (Some 7) \<Longrightarrow>
     requests (predictWeather e s) = requests s \<and> shown (predictWeather e s) = shown s \<and>
     apiError (predictWeather e s) \<noteq> None"
  by (auto simp: predictWeather_def showApiError_def)




lemma fetchWeatherData_requests:
  "currentCoords s = Some c \<Longrightarrow> selectedDate e = TimeValue t \<Longrightarrow>
     requests (fst (fetchWeatherData e s)) = requests s @ [predict_request e c t]"
  by (simp add: fetchWeatherData_def Let_def split: response.splits option.splits bool.splits)

lemma fetchWeatherData_invalid_date:
  "selectedDate e = InvalidDate \<Longrightarrow> \<exists>message. fetchWeatherData e s = (s, Inl message)"
  by (simp add: fetchWeatherData_def split: option.splits)

lemma predictWeather_requests:
  "currentCoords s = Some c \<Longrightarrow> \<not> num_lt (daysFromNow e) (Some 0) \<Longrightarrow>
   \<not> num_gt (daysFromNow e) (Some 7) \<Longrightarrow>
   requests (predictWeather e s) = requests (fst (fetchWeatherData e s))"
  by (auto simp: predictWeather_def showApiError_def updateWeatherTheme_def
      updateWeatherDisplay_def Let_def split: prod.splits sum.splits)


lemma example_days:
  "daysFromNow (example_env (TimeValue 1793750400000) r) = Some 2"
  "daysFromNow (example_env (TimeValue 1793491200000) r) = Some (- 1)"
  "daysFromNow (example_env (TimeValue 1794441600000) r) = Some 10"
  by (simp_all add: daysFromNow_def example_env_def num_ceil_def)



subsection \<open>What the weather card shows\<close>

lemma fetchWeatherData_success:
  "currentCoords s = Some c \<Longrightarrow> selectedDate e = TimeValue t \<Longrightarrow>
   model_answer (respond e (predict_request e c t)) = Some m \<Longrightarrow>
   fetchWeatherData e s =
     (s\<lparr>requests := requests s @ [predict_request e c t]\<rparr>, Inr (convertModelDataToWeather m))"
  by (cases "respond e (predict_request e c t)" rule: model_answer.cases)
     (simp_all add: fetchWeatherData_def Let_def)

lemma fetchWeatherData_failure:
  "currentCoords s = Some c \<Longrightarrow> selectedDate e = TimeValue t \<Longrightarrow>
   model_answer (respond e (predict_request e c t)) = None \<Longrightarrow>
   \<exists>message. fetchWeatherData e s =
     (s\<lparr>requests := requests s @ [predict_request e c t]\<rparr>, Inl message)"
  by (cases "respond e (predict_request e c t)" rule: model_answer.cases)
     (simp_all add: fetchWeatherData_def Let_def split: bool.splits)

lemma predictWeather_failure:
  assumes "currentCoords s = Some c" "selectedDate e = TimeValue t"
    "model_answer (respond e (predict_request e c t)) = None"
  shows "shown (predictWeather e s) = shown s \<and> theme (predictWeather e s) = theme s \<and>
         (\<exists>message. apiError (predictWeather e s) = Some (failed_message message))"
proof -
  from fetchWeatherData_failure [OF assms] obtain message where
    "fetchWeatherData e s = (s\<lparr>requests := requests s @ [predict_request e c t]\<rparr>, Inl message)"
    by blast
  with assms(1) show ?thesis
    by (auto simp: predictWeather_def showApiError_def)
qed

lemma predictWeather_success:
  assumes "currentCoords s = Some c" "selectedDate e = TimeValue t"
    "\<not> num_lt (daysFromNow e) (Some 0)" "\<not> num_gt (daysFromNow e) (Some 7)"
    "model_answer (respond e (predict_request e c t)) = Some m"
  shows "shown (predictWeather e s) = shown (updateWeatherDisplay (convertModelDataToWeather m) s)"
  using assms fetchWeatherData_success [OF assms(1,2,5)]
  by (simp add: predictWeather_def updateWeatherTheme_def updateWeatherDisplay_def Let_def)

lemma round_or_zero_rounded:
  "num_round (num_or (num_round a) (Some 0)) = Some (Math_round (or_zero a))"
  by (cases a) (auto simp: num_round_def num_or_def or_zero_def)

lemma round_or_zero: "num_round (num_or a (Some 0)) = Some (Math_round (or_zero a))"
  by (cases a) (auto simp: num_round_def num_or_def or_zero_def)

lemma or_zero_round: "Math_round (or_zero (num_round a)) = Math_round (or_zero a)"
  by (cases a) (simp_all add: or_zero_def num_round_Some num_round_def)

lemma gusts_eq:
  "num_round (num_or (num_mul a (Some 1.3)) (num_mul (num_round (num_or a (Some 0))) (Some 1.3)))
     = Some (Math_round (or_zero a * 1.3))"
proof (cases a)
  case None
  then show ?thesis
    by (simp add: num_or_def or_zero_def num_round_Some)
next
  case (Some x)
  show ?thesis
  proof (cases "x = 0")
    case True
    with Some show ?thesis
      by (simp add: num_or_def or_zero_def num_round_Some)
  next
    case False
    then have "x * 1.3 \<noteq> 0" by simp
    then have "num_or (Some (x * 1.3)) d = Some (x * 1.3)" for d
      unfolding num_or_def by (simp only: option.case if_False)
    with Some show ?thesis
      by (simp only: num_mul.simps num_round_Some or_zero_def option.case)
  qed
qed

lemma gusts_eq_normal:
  "num_round (num_or (num_mul a (Some (13 / 10))) (Some (Math_round (or_zero a) * 13 / 10)))
     = Some (Math_round (or_zero a * 13 / 10))"
  using gusts_eq [of a] by (simp add: round_or_zero)

lemma display_of_model:
  "shown (updateWeatherDisplay (convertModelDataToWeather m) s) = Some
     \<lparr>shown_currentTemp = num_round (temperature_air_temperature m),
      shown_currentFeelsLike = num_round (temperature_feels_like m),
      shown_currentCondition = getWeatherCondition (weather_conditions_primary m),
      shown_shadeTemp = map_option shade_of (temperature_feels_like m),
      shown_windSpeed = Some (Math_round (or_zero (wind_speed m))),
      shown_windGusts = Some (Math_round (or_zero (wind_speed m) * 1.3)),
      shown_humidity = Some (Math_round (or_zero (humidity_percentage m))),
      shown_pressure = Some (Math_round (or_zero (pressure_value m))),
      shown_visibility = str_or (weather_conditions_visibility m) ''Good'',
      shown_comfortLevel = str_or (comfort_index_comfort_level m) ''Pleasant'',
      shown_tonightLow = map_option low_of (temperature_air_temperature m),
      shown_tomorrowHigh = map_option high_of (temperature_air_temperature m),
      shown_probSunny = Some (Math_round (max 0 (100 -
         (or_zero (precipitation_rain_probability m) + or_zero (precipitation_snow_probability m)
          + or_zero (weather_conditions_storm_probability m))))),
      shown_probRainy = Some (Math_round (or_zero (precipitation_rain_probability m))),
      shown_probSnowy = Some (Math_round (or_zero (precipitation_snow_probability m))),
      shown_probStorm = Some (Math_round (or_zero (weather_conditions_storm_probability m)))\<rparr>"
proof -
  have cond: "str_or (Some (getWeatherCondition p)) ''Partly sunny'' = getWeatherCondition p" for p
    by (auto simp: getWeatherCondition_def str_or_def split: option.splits)
  have shade: "num_round (num_sub (num_round a) (Some 2)) = map_option shade_of a" for a
    by (cases a) (auto simp: num_round_def shade_of_def Math_round_shift)
  have low:
    "num_round (num_sub (num_round a) (if num_gt (num_round a) (Some 0) then Some 8 else Some 5))
      = map_option low_of a" for a
    by (cases a) (auto simp: num_round_def low_of_def Math_round_shift)
  have high:
    "num_round (num_add (num_round a) (if num_gt (num_round a) (Some 0) then Some 3 else Some 2))
      = map_option high_of a" for a
    by (cases a) (auto simp: num_round_def high_of_def Math_round_shift)
  have rr: "num_round (num_round a) = num_round a" for a
    by (cases a) (auto simp: num_round_def)
  show ?thesis
    unfolding updateWeatherDisplay_def Let_def calculateWeatherProbabilitiesFromModel_eq
    by (simp add: convertModelDataToWeather_def cond shade low high rr round_or_zero_rounded
        round_or_zero gusts_eq_normal or_zero_round num_round_Some)
qed

lemma example_shown:
  "shown (predictWeather (example_env (TimeValue 1793750400000)
            (OkJson True (Some example_model) None)) example_app)
   = shown (updateWeatherDisplay (convertModelDataToWeather example_model) example_app)"
  by (rule predictWeather_success
        [where c = "\<lparr>lat = 40.7128, lng = - 74.006\<rparr>" and t = 1793750400000])
     (simp_all add: example_days, simp_all add: example_env_def example_app_def)

text \<open>
  Claim C3, as amended. When the request to the backend fails or the backend reports
  failure (the fetch is rejected, the status is not \<open>ok\<close>, the body cannot be read, or
  \<open>success\<close> or \<open>data\<close> is missing), the weather card and the theme stay as they were and the
  error is shown, so the user can try again. After a successful prediction within the
  horizon the card shows: the model's temperature, feels-like temperature, humidity,
  pressure, wind speed and rain, snow and storm probabilities, each rounded to the nearest
  integer (an absent humidity, pressure, wind speed or probability shown as \<open>0\<close>); and five
  numbers derived from them by fixed formulas: the gusts (\<open>1.3\<close> times the wind speed,
  rounded), the shade temperature (rounded feels-like minus \<open>2\<close>), tonight's low (rounded
  temperature minus \<open>8\<close>, or minus \<open>5\<close> when it is not above \<open>0\<close>), tomorrow's high (rounded
  temperature plus \<open>3\<close>, or plus \<open>2\<close>) and the sunny probability
  (\<open>max(0, 100 - (rain + snow + storm))\<close>, rounded).
\<close>

theorem C3_display_only_from_model_answer:
  "(currentCoords s = Some c \<and> selectedDate e = TimeValue t \<and>
    model_answer (respond e (predict_request e c t)) = None \<longrightarrow>
      shown (predictWeather e s) = shown s \<and> theme (predictWeather e s) = theme s \<and>
      (\<exists>message. apiError (predictWeather e s) = Some (failed_message message))) \<and>
   (currentCoords s = Some c \<and> selectedDate e = TimeValue t \<and>
    \<not> num_lt (daysFromNow e) (Some 0) \<and> \<not> num_gt (daysFromNow e) (Some 7) \<and>
    model_answer (respond e (predict_request e c t)) = Some m \<longrightarrow>
      shown (predictWeather e s) = Some
        \<lparr>shown_currentTemp = num_round (temperature_air_temperature m),
         shown_currentFeelsLike = num_round (temperature_feels_like m),
         shown_currentCondition = getWeatherCondition (weather_conditions_primary m),
         shown_shadeTemp = map_option shade_of (temperature_feels_like m),
         shown_windSpeed = Some (Math_round (or_zero (wind_speed m))),
         shown_windGusts = Some (Math_round (or_zero (wind_speed m) * 1.3)),
         shown_humidity = Some (Math_round (or_zero (humidity_percentage m))),
         shown_pressure = Some (Math_round (or_zero (pressure_value m))),
         shown_visibility = str_or (weather_conditions_visibility m) ''Good'',
         shown_comfortLevel = str_or (comfort_index_comfort_level m) ''Pleasant'',
         shown_tonightLow = map_option low_of (temperature_air_temperature m),
         shown_tomorrowHigh = map_option high_of (temperature_air_temperature m),
         shown_probSunny = Some (Math_round (max 0 (100 -
            (or_zero (precipitation_rain_probability m)
             + or_zero (precipitation_snow_probability m)
             + or_zero (weather_conditions_storm_probability m))))),
         shown_probRainy = Some (Math_round (or_zero (precipitation_rain_probability m))),
         shown_probSnowy = Some (Math_round (or_zero (precipitation_snow_probability m))),
         shown_probStorm =
           Some (Math_round (or_zero (weather_conditions_storm_probability m)))\<rparr>)"
  using predictWeather_failure [of s c e t] predictWeather_success [of s c e t m]
    display_of_model [of m s]
  by simp

text \<open>
  The witness of C3: a \<open>503\<close> answer leaves the card empty, and the model answer
  \<open>example_model\<close> gives the card below.
\<close>

theorem C3_display_witness:
  "shown (predictWeather (example_env (TimeValue 1793750400000) (NotOk 503 None)) example_app)
     = None \<and>
   apiError (predictWeather (example_env (TimeValue 1793750400000) (NotOk 503 None)) example_app)
     = Some (failed_message ''Model API error: 503'') \<and>
   shown (predictWeather (example_env (TimeValue 1793750400000)
            (OkJson True (Some example_model) None)) example_app) = Some
        \<lparr>shown_currentTemp = Some 21,
         shown_currentFeelsLike = Some 20,
         shown_currentCondition = ''Sunny'',
         shown_shadeTemp = Some 18,
         shown_windSpeed = Some 10,
         shown_windGusts = Some 13,
         shown_humidity = Some 50,
         shown_pressure = Some 1013,
         shown_visibility = ''Good'',
         shown_comfortLevel = ''Pleasant'',
         shown_tonightLow = Some 13,
         shown_tomorrowHigh = Some 24,
         shown_probSunny = Some 100,
         shown_probRainy = Some 0,
         shown_probSnowy = Some 0,
         shown_probStorm = Some 0\<rparr>"
  using C3_display_only_from_model_answer [of example_app "\<lparr>lat = 40.7128, lng = - 74.006\<rparr>"
      "example_env (TimeValue 1793750400000) (NotOk 503 None)" 1793750400000]
    C3_display_only_from_model_answer [of example_app "\<lparr>lat = 40.7128, lng = - 74.006\<rparr>"
      "example_env (TimeValue 1793750400000) (OkJson True (Some example_model) None)"
      1793750400000 example_model]
  by (simp add: example_days)
     (simp add: example_env_def example_app_def example_model_def or_zero_def Math_round_def
        shade_of_def low_of_def high_of_def num_round_def getWeatherCondition_def
        condition_names_def str_or_def predictWeather_def example_days [unfolded example_env_def]
        fetchWeatherData_def showApiError_def digits_numeral digit_char_def)

text \<open>
  Claim C3 as stated fails in its second half: after the successful prediction with
  \<open>example_model\<close> (wind speed \<open>10\<close>) the card shows gusts of \<open>13\<close>, a number that is neither a
  value the model returned nor one of them rounded; it is the estimate \<open>1.3 \<sqdot> 10\<close>.
\<close>

theorem C3_derived_number_counterexample:
  "\<exists>d. shown (predictWeather (example_env (TimeValue 1793750400000)
                 (OkJson True (Some example_model) None)) example_app) = Some d \<and>
        shown_windGusts d = Some 13 \<and>
        Some 13 \<in> set (displayed_numbers d) \<and>
        \<not> spec_traces_to_model example_model (Some 13)"
proof -
  have "\<not> spec_traces_to_model example_model (Some 13)"
    by (simp add: spec_traces_to_model_def model_numbers_def example_model_def num_round_def
        Math_round_def)
  moreover have "Math_round (or_zero (wind_speed example_model) * 1.3) = 13"
    by (simp add: example_model_def or_zero_def Math_round_def)
  ultimately show ?thesis
    unfolding example_shown display_of_model
    by (simp add: displayed_numbers_def)
qed

subsection \<open>The requests sent\<close>

lemma predictEnvironment_sent:
  "\<not> isLoading s \<Longrightarrow> dateInput s \<noteq> [] \<Longrightarrow> selectedLocation s = Some loc \<Longrightarrow>
   sent (predictEnvironment backend s) =
     sent s @ [\<lparr>url = ''http://localhost:5000/api/predict'',
               body = requestData (dateInput s) loc\<rparr>]"
  by (simp add: predictEnvironment_def Let_def hideError_def showError_def displayResults_def
      split: api_response.splits)

lemma predictEnvironment_rejects:
  "dateInput s = [] \<or> selectedLocation s = None \<Longrightarrow>
   sent (predictEnvironment backend s) = sent s \<and>
   (\<not> isLoading s \<longrightarrow> errorState (predictEnvironment backend s) \<noteq> None)"
  by (auto simp: predictEnvironment_def Let_def showError_def)

lemma EnvironmentalDashboard_rejects:
  "dateInput s = [] \<Longrightarrow>
   sent (EnvironmentalDashboard_predictEnvironment backend s) = sent s \<and>
   errorState (EnvironmentalDashboard_predictEnvironment backend s) \<noteq> None"
  by (simp add: EnvironmentalDashboard_predictEnvironment_def showError_def)

lemma EnvironmentalDashboard_sent:
  "dateInput s \<noteq> [] \<Longrightarrow>
   sent (EnvironmentalDashboard_predictEnvironment backend s) =
     sent s @ [\<lparr>url = ''http://localhost:5000/api/predict'',
               body = JObject [(''date'', JString (dateInput s))]\<rparr>]"
  by (simp add: EnvironmentalDashboard_predictEnvironment_def Let_def hideError_def showError_def
      displayResults_def split: api_response.splits)

lemma predictWeather_no_location:
  "currentCoords s = None \<Longrightarrow>
   requests (predictWeather e s) = requests s \<and> apiError (predictWeather e s) \<noteq> None"
  by (simp add: predictWeather_def showApiError_def)

lemma predictWeather_invalid_date:
  assumes "selectedDate e = InvalidDate"
  shows "requests (predictWeather e s) = requests s \<and> apiError (predictWeather e s) \<noteq> None"
proof -
  from fetchWeatherData_invalid_date [OF assms] obtain message where
    "fetchWeatherData e s = (s, Inl message)" by blast
  then show ?thesis
    by (auto simp: predictWeather_def showApiError_def)
qed

lemma predictWeather_sends:
  assumes "currentCoords s = Some c" "selectedDate e = TimeValue t"
    "\<not> num_lt (daysFromNow e) (Some 0)" "\<not> num_gt (daysFromNow e) (Some 7)"
  shows "requests (predictWeather e s) = requests s @ [predict_request e c t]"
  using predictWeather_requests [OF assms(1,3,4)] fetchWeatherData_requests [OF assms(1,2)]
  by simp

text \<open>
  Claim C4, as amended. A prediction that WeatherOracle issues (a date typed in, a location
  selected, no run in flight) posts the body \<open>{date, location: {name, latitude, longitude}}\<close>
  with the date input's value as \<open>date\<close> and the coordinates nested under \<open>location\<close>. A
  prediction that WeatherApp issues posts the body \<open>{date, latitude, longitude}\<close>, where
  \<open>date\<close> is the first 16 characters of the selected date's ISO string and the coordinates
  are top-level members; there is no \<open>location\<close> member.
\<close>

theorem C4_request_bodies:
  "(\<not> isLoading s \<and> dateInput s \<noteq> [] \<and> selectedLocation s = Some loc \<longrightarrow>
      sent (predictEnvironment backend s) =
        sent s @ [\<lparr>url = ''http://localhost:5000/api/predict'',
                  body = JObject
                    [(''date'', JString (dateInput s)),
                     (''location'', JObject [(''name'', JString (loc_name loc)),
                                             (''latitude'', JNumber (latitude loc)),
                                             (''longitude'', JNumber (longitude loc))])]\<rparr>]) \<and>
   (currentCoords a = Some c \<and> selectedDate e = TimeValue t \<and>
    \<not> num_lt (daysFromNow e) (Some 0) \<and> \<not> num_gt (daysFromNow e) (Some 7) \<longrightarrow>
      requests (predictWeather e a) =
        requests a @ [\<lparr>url = ''http://localhost:5000/predict'',
                      body = JObject
                        [(''date'', JString (take 16 (toISOString e t))),
                         (''latitude'', JNumber (lat c)),
                         (''longitude'', JNumber (lng c))]\<rparr>])"
  using predictEnvironment_sent [of s loc backend] predictWeather_sends [of a c e t]
  by (simp add: requestData_def predict_request_def)

text \<open>The witness of C4: the two requests for New York City.\<close>

theorem C4_request_bodies_witness:
  "sent (predictEnvironment (\<lambda>req. Rejected) (example_oracle ''2023-02-15'')) =
     [\<lparr>url = ''http://localhost:5000/api/predict'',
       body = JObject
         [(''date'', JString ''2023-02-15''),
          (''location'', JObject [(''name'', JString ''New York City''),
                                  (''latitude'', JNumber 40.7128),
                                  (''longitude'', JNumber (- 74.006))])]\<rparr>] \<and>
   requests (predictWeather
       (example_env (TimeValue 1793750400000) (FetchRejected ''Failed to fetch'')) example_app)
     = [\<lparr>url = ''http://localhost:5000/predict'',
         body = JObject [(''date'', JString ''2026-11-04T00:00''),
                         (''latitude'', JNumber 40.7128), (''longitude'', JNumber (- 74.006))]\<rparr>]"
  using C4_request_bodies [of "example_oracle ''2023-02-15''"
      "\<lparr>loc_name = ''New York City'', latitude = 40.7128, longitude = - 74.006\<rparr>"
      "\<lambda>req. Rejected" example_app "\<lparr>lat = 40.7128, lng = - 74.006\<rparr>"
      "example_env (TimeValue 1793750400000) (FetchRejected ''Failed to fetch'')" 1793750400000]
  by (simp add: example_days)
     (simp add: example_oracle_def example_env_def example_app_def)

text \<open>
  Claim C4 as stated fails for WeatherApp: the body it posts has the coordinates as
  top-level members and no \<open>location\<close> member.
\<close>

theorem C4_flat_coordinates_counterexample:
  "\<exists>r. requests (predictWeather
            (example_env (TimeValue 1793750400000) (FetchRejected ''Failed to fetch''))
            example_app) = [r] \<and>
       json_field (body r) ''location'' = None \<and>
       json_field (body r) ''latitude'' = Some (JNumber 40.7128) \<and>
       json_field (body r) ''longitude'' = Some (JNumber (- 74.006))"
proof -
  have "requests (predictWeather
            (example_env (TimeValue 1793750400000) (FetchRejected ''Failed to fetch''))
            example_app)
        = requests example_app @
          [predict_request (example_env (TimeValue 1793750400000) (FetchRejected ''Failed to fetch''))
             \<lparr>lat = 40.7128, lng = - 74.006\<rparr> 1793750400000]"
    by (rule predictWeather_sends) (simp_all add: example_days, simp_all add: example_app_def example_env_def)
  then show ?thesis
    by (simp add: example_app_def predict_request_def)
qed

text \<open>
  Claim C5, as amended. In WeatherOracle a predict action with a missing date or a missing
  location sends nothing and, unless an earlier run is still in flight, reports an error;
  there is no check of the date's range in this variant: every non-empty date is sent to the
  backend with the selected location. EnvironmentalDashboard, which has no location, does
  the same for the date alone. In WeatherApp a predict action with a missing
  location, a missing or unreadable date, or a date whose days-from-now is negative or
  greater than 7 reports an error and sends nothing.
\<close>

theorem C5_validation_before_fetch:
  "(dateInput s = [] \<or> selectedLocation s = None \<longrightarrow>
      sent (predictEnvironment backend s) = sent s \<and>
      (\<not> isLoading s \<longrightarrow> errorState (predictEnvironment backend s) \<noteq> None)) \<and>
   (\<not> isLoading s \<and> dateInput s \<noteq> [] \<and> selectedLocation s = Some loc \<longrightarrow>
      sent (predictEnvironment backend s) =
        sent s @ [\<lparr>url = ''http://localhost:5000/api/predict'',
                  body = requestData (dateInput s) loc\<rparr>]) \<and>
   (dateInput s = [] \<longrightarrow>
      sent (EnvironmentalDashboard_predictEnvironment backend s) = sent s \<and>
      errorState (EnvironmentalDashboard_predictEnvironment backend s) \<noteq> None) \<and>
   (dateInput s \<noteq> [] \<longrightarrow>
      sent (EnvironmentalDashboard_predictEnvironment backend s) =
        sent s @ [\<lparr>url = ''http://localhost:5000/api/predict'',
                  body = JObject [(''date'', JString (dateInput s))]\<rparr>]) \<and>
   (currentCoords a = None \<or> selectedDate e = InvalidDate \<or>
    num_lt (daysFromNow e) (Some 0) \<or> num_gt (daysFromNow e) (Some 7) \<longrightarrow>
      requests (predictWeather e a) = requests a \<and> apiError (predictWeather e a) \<noteq> None)"
  using predictEnvironment_rejects [of s backend] predictEnvironment_sent [of s loc backend]
    EnvironmentalDashboard_rejects [of s backend] EnvironmentalDashboard_sent [of s backend]
    predictWeather_no_location [of a e] predictWeather_invalid_date [of e a]
    predictWeather_rejects [of e a]
  by blast

text \<open>
  Claim C5 as stated fails for WeatherOracle: with a location selected, the date
  \<open>2023-13-01\<close> of the specification's boundary scenario and the date \<open>2024-02-15\<close> outside the
  training year are both sent to the backend.
\<close>

theorem C5_unchecked_date_counterexample:
  "sent (predictEnvironment (\<lambda>req. Status 400) (example_oracle ''2023-13-01'')) =
     [\<lparr>url = ''http://localhost:5000/api/predict'',
       body = requestData ''2023-13-01''
         \<lparr>loc_name = ''New York City'', latitude = 40.7128, longitude = - 74.006\<rparr>\<rparr>] \<and>
   sent (predictEnvironment (\<lambda>req. Status 400) (example_oracle ''2024-02-15'')) =
     [\<lparr>url = ''http://localhost:5000/api/predict'',
       body = requestData ''2024-02-15''
         \<lparr>loc_name = ''New York City'', latitude = 40.7128, longitude = - 74.006\<rparr>\<rparr>]"
  using predictEnvironment_sent [of "example_oracle ''2023-13-01''" _ "\<lambda>req. Status 400"]
    predictEnvironment_sent [of "example_oracle ''2024-02-15''" _ "\<lambda>req. Status 400"]
  by (simp add: example_oracle_def)

text \<open>
  The witness of C5: no date, no location, an unreadable date, a date ten days ahead, and
  no coordinates.
\<close>

theorem C5_validation_witness:
  "sent (predictEnvironment (\<lambda>req. Rejected) (example_oracle [])) = [] \<and>
   errorState (predictEnvironment (\<lambda>req. Rejected) (example_oracle []))
     = Some ''Please select a date'' \<and>
   sent (predictEnvironment (\<lambda>req. Rejected)
          ((example_oracle ''2023-02-15'')\<lparr>selectedLocation := None\<rparr>)) = [] \<and>
   sent (EnvironmentalDashboard_predictEnvironment (\<lambda>req. Rejected) (example_oracle []))
     = [] \<and>
   requests (predictWeather
       (example_env InvalidDate (FetchRejected ''Failed to fetch'')) example_app) = [] \<and>
   requests (predictWeather
       (example_env (TimeValue 1794441600000) (FetchRejected ''Failed to fetch'')) example_app)
     = [] \<and>
   requests (predictWeather
       (example_env (TimeValue 1793750400000) (FetchRejected ''Failed to fetch''))
       (example_app\<lparr>currentCoords := None\<rparr>)) = []"
  using
    C5_validation_before_fetch
      [of "example_oracle []" "\<lambda>req. Rejected" _ example_app
        "example_env InvalidDate (FetchRejected ''Failed to fetch'')"]
    C5_validation_before_fetch
      [of "(example_oracle ''2023-02-15'')\<lparr>selectedLocation := None\<rparr>" "\<lambda>req. Rejected" _
        example_app "example_env (TimeValue 1794441600000) (FetchRejected ''Failed to fetch'')"]
    C5_validation_before_fetch
      [of "example_oracle []" "\<lambda>req. Rejected" _ "example_app\<lparr>currentCoords := None\<rparr>"
        "example_env (TimeValue 1793750400000) (FetchRejected ''Failed to fetch'')"]
  by (simp add: example_days)
     (simp add: example_oracle_def example_env_def example_app_def predictEnvironment_def
        showError_def)


end
